theory Spec2Isabelle
  imports Main "HOL-Library.Word"
begin

unbundle bit_operations_syntax

section \<open>Machine types, memory and status codes\<close>

text \<open>
  The sources are C. An \<^verbatim>\<open>unsigned char\<close> is an 8-bit word and an \<^verbatim>\<open>unsigned int\<close> a
  32-bit word, so \<open>+\<close> and \<open>-\<close> wrap around as they do in C. An \<^verbatim>\<open>int\<close> that the
  source only ever compares with an \<^verbatim>\<open>unsigned int\<close> (C converts it to unsigned first)
  or with \<open>-1\<close> is kept as its 32-bit pattern as well.

  A \<^verbatim>\<open>const unsigned char *\<close> is the memory seen through it: the byte at every index.
  A buffer is such a pointer together with a size; the bytes at indices from the size on
  are still there in memory, they are just not part of the buffer. Whether the code stays
  inside the buffer is therefore visible in the model: a result that changes with a byte
  at an index \<open>\<ge> size\<close> has read it.
\<close>

type_synonym byte = "8 word"
type_synonym uint = "32 word"
type_synonym mem = "nat \<Rightarrow> byte"

datatype dc_status =
    DC_STATUS_SUCCESS
  | DC_STATUS_UNSUPPORTED
  | DC_STATUS_INVALIDARGS
  | DC_STATUS_NOMEMORY
  | DC_STATUS_IO
  | DC_STATUS_TIMEOUT
  | DC_STATUS_PROTOCOL
  | DC_STATUS_DATAFORMAT

text \<open>
  For concrete inputs: the memory that holds the listed bytes from index 0 on and the
  byte \<open>rest\<close> at every later index.
\<close>

definition mem_of :: "byte list \<Rightarrow> byte \<Rightarrow> mem" where
  "mem_of bs rest = (\<lambda>i. if i < length bs then bs ! i else rest)"

text \<open>Pointer arithmetic \<^verbatim>\<open>p + k\<close>.\<close>

definition ptr_add :: "mem \<Rightarrow> nat \<Rightarrow> mem" where
  "ptr_add p k = (\<lambda>i. p (k + i))"

text \<open>
  Modelled from the spec: \<^verbatim>\<open>array_uint32_le\<close> is declared in \<^verbatim>\<open>array.h\<close>, which is not
  among the sources. The spec calls every use of it a ``4-byte little-endian'' unsigned
  value, so it reads the four bytes at the pointer, least significant first.
\<close>

definition array_uint32_le :: "mem \<Rightarrow> uint" where
  "array_uint32_le p =
     ucast (p 0) + push_bit 8 (ucast (p 1)) + push_bit 16 (ucast (p 2)) + push_bit 24 (ucast (p 3))"


section \<open>The sample stream decoder (\<^verbatim>\<open>suunto_solution_parser.c\<close>)\<close>

datatype parser_backend = Suunto_solution_parser_backend | Other_parser_backend

text \<open>
  \<^verbatim>\<open>dc_parser_t\<close>: the backend pointer, and the data and size that the parser was given.
  It is the first member of the parser structs of the backends, which extend it.
\<close>

record dc_parser =
  parser_backend :: parser_backend
  parser_data :: mem
  parser_size :: uint

text \<open>A \<^verbatim>\<open>dc_parser_t *\<close> may be null.\<close>

definition parser_is_suunto_solution :: "'a dc_parser_scheme option \<Rightarrow> bool" where
  "parser_is_suunto_solution abstract =
     (case abstract of
        None \<Rightarrow> False
      | Some p \<Rightarrow> parser_backend p = Suunto_solution_parser_backend)"

datatype dc_sample_type = DC_SAMPLE_TIME | DC_SAMPLE_DEPTH | DC_SAMPLE_EVENT

text \<open>
  The event type of a sample. The sample is zero-initialised (\<^verbatim>\<open>sample = {0}\<close>) and the
  \<^verbatim>\<open>default\<close> branch of the switch leaves the type as it is: \<open>SAMPLE_EVENT_NONE\<close> is that
  zero.
\<close>

datatype sample_event =
    SAMPLE_EVENT_NONE
  | SAMPLE_EVENT_DECOSTOP
  | SAMPLE_EVENT_CEILING
  | SAMPLE_EVENT_ASCENT

text \<open>
  \<^verbatim>\<open>dc_sample_value_t\<close> is a union. The depth member is the \<^verbatim>\<open>double\<close>
  \<^verbatim>\<open>depth * FEET\<close>; the model keeps its integer factor, the running depth in feet as the
  \<^verbatim>\<open>unsigned int\<close> it is, and leaves the multiplication by the constant to the reader.
  An event carries its type, time, flags and value.
\<close>

datatype dc_sample_value =
    Sample_time uint
  | Sample_depth_ft uint
  | Sample_event sample_event uint uint uint

text \<open>
  The sample callback gets the sample type, the sample and the user data, which it may
  change. Its type is declared in a header that is not among the sources; every call in
  the source is a statement of its own, so whatever the callback returns (\<open>'r\<close>) is
  dropped. The callback pointer may be null, and then nothing is called.
\<close>

type_synonym ('u, 'r) dc_sample_callback =
  "dc_sample_type \<Rightarrow> dc_sample_value \<Rightarrow> 'u \<Rightarrow> 'r \<times> 'u"

definition call_sample ::
  "('u, 'r) dc_sample_callback option \<Rightarrow> dc_sample_type \<Rightarrow> dc_sample_value \<Rightarrow> 'u \<Rightarrow> 'u" where
  "call_sample callback t s u =
     (case callback of None \<Rightarrow> u | Some f \<Rightarrow> snd (f t s u))"

text \<open>The switch over an event byte.\<close>

definition event_type :: "byte \<Rightarrow> sample_event" where
  "event_type v =
     (if v = 0x7e then SAMPLE_EVENT_DECOSTOP
      else if v = 0x7f then SAMPLE_EVENT_CEILING
      else if v = 0x81 then SAMPLE_EVENT_ASCENT
      else SAMPLE_EVENT_NONE)"

text \<open>
  The \<^verbatim>\<open>while\<close> loop of \<^verbatim>\<open>suunto_solution_parser_samples_foreach\<close>, from any loop
  state: the offset, the running time and depth, the user data. It ends with \<open>Inl\<close> of a
  status where the body returns, and with \<open>Inr\<close> of the offset where the loop condition
  fails. The offset is a 32-bit counter, and for a size of \<open>2^32 - 1\<close> the test
  \<^verbatim>\<open>offset + 1 > size\<close> wraps around, so the loop is not known to end on every input:
  not ending is the value \<open>None\<close>. (The \<^verbatim>\<open>WARNING\<close> of the default branch writes to the
  log of the context, which is not modelled.)
\<close>

partial_function (option) samples_loop ::
  "mem \<Rightarrow> uint \<Rightarrow> ('u, 'r) dc_sample_callback option \<Rightarrow> uint \<Rightarrow> uint \<Rightarrow> uint \<Rightarrow> 'u
     \<Rightarrow> ((dc_status + uint) \<times> 'u) option" where
  "samples_loop data sz callback offset time depth u =
     (if offset < sz \<and> data (unat offset) \<noteq> 0x80 then
        let v = data (unat offset); offset1 = offset + 1 in
        if v < 0x7e \<or> v > 0x82 then
          let time1 = time + 3 * 60;
              u1 = call_sample callback DC_SAMPLE_TIME (Sample_time time1) u;
              depth1 = depth + scast v
          in
            if v = 0x7D \<or> v = 0x83 then
              if offset1 + 1 > sz then Some (Inl DC_STATUS_DATAFORMAT, u1)
              else
                let depth2 = depth1 + scast (data (unat offset1));
                    offset2 = offset1 + 1;
                    u2 = call_sample callback DC_SAMPLE_DEPTH (Sample_depth_ft depth2) u1
                in samples_loop data sz callback offset2 time1 depth2 u2
            else
              let u2 = call_sample callback DC_SAMPLE_DEPTH (Sample_depth_ft depth1) u1
              in samples_loop data sz callback offset1 time1 depth1 u2
        else
          let u1 = call_sample callback DC_SAMPLE_EVENT (Sample_event (event_type v) 0 0 0) u
          in samples_loop data sz callback offset1 time depth u1
      else Some (Inr offset, u))"

text \<open>
  \<^verbatim>\<open>suunto_solution_parser_samples_foreach\<close>: the checks before the loop, the loop from
  offset 3 with time and depth 0, and the test of \<^verbatim>\<open>data[offset]\<close> after it.
\<close>

definition suunto_solution_parser_samples_foreach ::
  "'a dc_parser_scheme option \<Rightarrow> ('u, 'r) dc_sample_callback option \<Rightarrow> 'u
     \<Rightarrow> (dc_status \<times> 'u) option" where
  "suunto_solution_parser_samples_foreach abstract callback u =
     (if \<not> parser_is_suunto_solution abstract then Some (DC_STATUS_INVALIDARGS, u)
      else
        let data = parser_data (the abstract); sz = parser_size (the abstract) in
        if sz < 4 then Some (DC_STATUS_DATAFORMAT, u)
        else
          case samples_loop data sz callback 3 0 0 u of
            None \<Rightarrow> None
          | Some (Inl st, u1) \<Rightarrow> Some (st, u1)
          | Some (Inr offset, u1) \<Rightarrow>
              if data (unat offset) \<noteq> 0x80 then Some (DC_STATUS_DATAFORMAT, u1)
              else Some (DC_STATUS_SUCCESS, u1))"






text \<open>A consumer that keeps every sample it is given, in order.\<close>

definition keep_samples :: "'r \<Rightarrow> (dc_sample_value list, 'r) dc_sample_callback" where
  "keep_samples r = (\<lambda>t s u. (r, u @ [s]))"

definition solution_parser :: "byte list \<Rightarrow> byte \<Rightarrow> dc_parser" where
  "solution_parser bs rest =
     \<lparr>parser_backend = Suunto_solution_parser_backend,
      parser_data = mem_of bs rest,
      parser_size = of_nat (length bs)\<rparr>"


section \<open>The dive splitter (\<^verbatim>\<open>uwatec_smart_extract_dives\<close>)\<close>

datatype device_backend = Uwatec_smart_device_backend | Other_device_backend

text \<open>
  \<^verbatim>\<open>uwatec_smart_device_t\<close>: the backend pointer of its base, the socket (the state of the
  transport), and the fields of the device. \<^verbatim>\<open>systime\<close> is a \<^verbatim>\<open>dc_ticks_t\<close>.
\<close>

record 's uwatec_smart_device =
  device_backend :: device_backend
  socket :: 's
  address :: uint
  timestamp :: uint
  devtime :: uint
  systime :: int

definition device_is_uwatec_smart :: "'s uwatec_smart_device option \<Rightarrow> bool" where
  "device_is_uwatec_smart abstract =
     (case abstract of
        None \<Rightarrow> False
      | Some d \<Rightarrow> device_backend d = Uwatec_smart_device_backend)"

text \<open>
  The dive callback gets two pointers into the dump, \<^verbatim>\<open>data + current\<close> and
  \<^verbatim>\<open>data + current + 8\<close>, each with a size, and the user data; it returns an \<^verbatim>\<open>int\<close>,
  and 0 asks to stop. A pointer into the dump is the dump's memory and an index.
\<close>

type_synonym 'u dc_dive_callback =
  "mem \<Rightarrow> nat \<Rightarrow> uint \<Rightarrow> nat \<Rightarrow> uint \<Rightarrow> 'u \<Rightarrow> int \<times> 'u"

definition header :: "byte list" where
  "header = [0xa5, 0xa5, 0x5a, 0x5a]"

text \<open>\<^verbatim>\<open>memcmp (p, q, n) == 0\<close> for a pointer and an array.\<close>

definition memcmp_eq :: "mem \<Rightarrow> byte list \<Rightarrow> nat \<Rightarrow> bool" where
  "memcmp_eq p q n = (map p [0..<n] = take n q)"

text \<open>The scan counts down: what the loop's termination rests on.\<close>

lemma unat_pred_less: "0 < (c::uint) \<Longrightarrow> unat (c - 1) < unat c"
  by (simp add: unat_minus_one word_neq_0_conv unat_gt_0 flip: word_gt_0)

lemma unat_sub4_le: "4 \<le> (d::uint) \<Longrightarrow> unat (d - 4) \<le> unat d"
  using unat_sub [of 4 d] by simp

lemma unat_pred5_less: "0 < (c::uint) \<Longrightarrow> 4 \<le> c - 1 \<Longrightarrow> unat (c - 5) < unat c"
  using unat_pred_less [of c] unat_sub4_le [of "c - 1"] by simp

text \<open>
  The \<^verbatim>\<open>while (current > 0)\<close> loop, from any loop state. Next to the state of the source
  (\<^verbatim>\<open>previous\<close>, \<^verbatim>\<open>current\<close>, the user data) the model keeps a log that the source does not
  have: the positions handed to \<^verbatim>\<open>memcmp\<close>, in the order of the calls.
\<close>

function extract_loop ::
  "mem \<Rightarrow> 'u dc_dive_callback option \<Rightarrow> uint \<Rightarrow> uint \<Rightarrow> 'u \<Rightarrow> uint list
     \<Rightarrow> dc_status \<times> 'u \<times> uint list" where
  "extract_loop data callback previous current u probes =
     (if current > 0 then
        let current1 = current - 1; probes1 = probes @ [current1] in
        if memcmp_eq (ptr_add data (unat current1)) header 4 then
          let len = array_uint32_le (ptr_add data (unat current1 + 4)) in
          if current1 + len > previous then (DC_STATUS_DATAFORMAT, u, probes1)
          else
            case callback of
              None \<Rightarrow>
                extract_loop data callback current1
                  (if current1 \<ge> 4 then current1 - 4 else 0) u probes1
            | Some f \<Rightarrow>
                let (r, u1) = f data (unat current1) len (unat current1 + 8) 4 u in
                if r = 0 then (DC_STATUS_SUCCESS, u1, probes1)
                else
                  extract_loop data callback current1
                    (if current1 \<ge> 4 then current1 - 4 else 0) u1 probes1
        else extract_loop data callback previous current1 u probes1
      else (DC_STATUS_SUCCESS, u, probes))"
  by pat_completeness auto
termination
  by (relation "measure (\<lambda>(data, callback, previous, current, u, probes). unat current)")
     (auto simp: unat_pred_less unat_pred5_less unat_gt_0 word_neq_0_conv)

text \<open>
  \<^verbatim>\<open>uwatec_smart_extract_dives\<close>: a device pointer that is not null must be a Uwatec
  Smart device; the scan starts with \<^verbatim>\<open>previous = size\<close> and
  \<^verbatim>\<open>current = (size >= 4 ? size - 4 : 0)\<close>.
\<close>

definition uwatec_smart_extract_dives ::
  "'s uwatec_smart_device option \<Rightarrow> mem \<Rightarrow> uint \<Rightarrow> 'u dc_dive_callback option \<Rightarrow> 'u
     \<Rightarrow> dc_status \<times> 'u \<times> uint list" where
  "uwatec_smart_extract_dives abstract data sz callback u =
     (if abstract \<noteq> None \<and> \<not> device_is_uwatec_smart abstract
      then (DC_STATUS_INVALIDARGS, u, [])
      else extract_loop data callback sz (if sz \<ge> 4 then sz - 4 else 0) u [])"

text \<open>
  A consumer that keeps the position and the length of every record it is given and
  answers \<open>r\<close> every time.
\<close>

definition keep_dives :: "int \<Rightarrow> (nat \<times> uint) list dc_dive_callback" where
  "keep_dives r = (\<lambda>data p len fp fsize u. (r, u @ [(p, len)]))"


section \<open>The command/response engine and the dump (\<^verbatim>\<open>uwatec_smart.c\<close>)\<close>

text \<open>
  The transport is not part of the sources: \<^verbatim>\<open>irda.h\<close> declares it. It is a parameter of
  the model, a record of the three calls the code makes, each a function of the state of
  the socket \<open>'s\<close> that also returns the new state. A write gets the bytes to send and
  returns the \<^verbatim>\<open>int\<close> result; a read gets the number of bytes asked for and returns the
  \<^verbatim>\<open>int\<close> result with the bytes it has stored through the pointer; \<^verbatim>\<open>available\<close> returns
  an \<^verbatim>\<open>int\<close>. Three more things come from outside and are parameters as well: the clock
  (\<^verbatim>\<open>dc_datetime_now\<close>), whether the allocator can give a buffer of a size
  (\<^verbatim>\<open>dc_buffer_new\<close>, \<^verbatim>\<open>dc_buffer_resize\<close>), and the maximum that the macro
  \<^verbatim>\<open>EVENT_PROGRESS_INITIALIZER\<close> of a private header gives a progress event before the
  length is known.
\<close>

record 's irda =
  irda_socket_write :: "'s \<Rightarrow> byte list \<Rightarrow> uint \<times> 's"
  irda_socket_read :: "'s \<Rightarrow> uint \<Rightarrow> (uint \<times> byte list) \<times> 's"
  irda_socket_available :: "'s \<Rightarrow> uint \<times> 's"
  dc_datetime_now :: int
  can_allocate :: "nat \<Rightarrow> bool"
  initial_maximum :: uint

text \<open>The macro \<^verbatim>\<open>EXITCODE(rc)\<close>: \<^verbatim>\<open>rc == -1 ? DC_STATUS_IO : DC_STATUS_TIMEOUT\<close>.\<close>

definition EXITCODE :: "uint \<Rightarrow> dc_status" where
  "EXITCODE rc = (if rc = - 1 then DC_STATUS_IO else DC_STATUS_TIMEOUT)"

text \<open>A store of bytes through the pointer \<^verbatim>\<open>p + k\<close>.\<close>

definition mem_store_at :: "mem \<Rightarrow> nat \<Rightarrow> byte list \<Rightarrow> mem" where
  "mem_store_at p k bs = (\<lambda>i. if k \<le> i \<and> i < k + length bs then bs ! (i - k) else p i)"

text \<open>
  \<^verbatim>\<open>uwatec_smart_transfer\<close>. The answer pointer is a memory and an index into it; the
  bytes that the read has stored are in the memory returned, also when the read fails.
\<close>

definition uwatec_smart_transfer ::
  "'s irda \<Rightarrow> 's uwatec_smart_device \<Rightarrow> byte list \<Rightarrow> uint \<Rightarrow> mem \<Rightarrow> nat \<Rightarrow> uint
     \<Rightarrow> dc_status \<times> mem \<times> 's uwatec_smart_device" where
  "uwatec_smart_transfer io device command csize answer k asize =
     (let (n, s1) = irda_socket_write io (socket device) (take (unat csize) command) in
      if n \<noteq> csize then (EXITCODE n, answer, device\<lparr>socket := s1\<rparr>)
      else
        let ((n2, bytes), s2) = irda_socket_read io s1 asize;
            answer1 = mem_store_at answer k (take (unat asize) bytes)
        in
          if n2 \<noteq> asize then (EXITCODE n2, answer1, device\<lparr>socket := s2\<rparr>)
          else (DC_STATUS_SUCCESS, answer1, device\<lparr>socket := s2\<rparr>))"

text \<open>\<^verbatim>\<open>uwatec_smart_handshake\<close>: the two stages, each with its answer byte verified.\<close>

definition uwatec_smart_handshake ::
  "'s irda \<Rightarrow> 's uwatec_smart_device \<Rightarrow> dc_status \<times> 's uwatec_smart_device" where
  "uwatec_smart_handshake io device =
     (let answer = (\<lambda>i. 0);
          command = [0x00, 0x10, 0x27, 0, 0];
          command1 = command[0 := 0x1B];
          (rc, answer1, device1) = uwatec_smart_transfer io device command1 1 answer 0 1
      in
        if rc \<noteq> DC_STATUS_SUCCESS then (rc, device1)
        else if answer1 0 \<noteq> 0x01 then (DC_STATUS_PROTOCOL, device1)
        else
          let command2 = command1[0 := 0x1C];
              (rc2, answer2, device2) = uwatec_smart_transfer io device1 command2 5 answer1 0 1
          in
            if rc2 \<noteq> DC_STATUS_SUCCESS then (rc2, device2)
            else if answer2 0 \<noteq> 0x01 then (DC_STATUS_PROTOCOL, device2)
            else (DC_STATUS_SUCCESS, device2))"

text \<open>
  Modelled from the spec: \<^verbatim>\<open>UWATEC_SMART_VERSION_SIZE\<close> is defined in the public header,
  which is not among the sources. The spec counts the device info query as ``9 bytes
  total'': model (1), serial (4), device clock (4).
\<close>

definition UWATEC_SMART_VERSION_SIZE :: uint where
  "UWATEC_SMART_VERSION_SIZE = 9"

text \<open>\<^verbatim>\<open>uwatec_smart_device_version\<close>: three transfers into \<^verbatim>\<open>data + 0\<close>, \<^verbatim>\<open>+ 1\<close>, \<^verbatim>\<open>+ 5\<close>.\<close>

definition uwatec_smart_device_version ::
  "'s irda \<Rightarrow> 's uwatec_smart_device \<Rightarrow> mem \<Rightarrow> uint
     \<Rightarrow> dc_status \<times> mem \<times> 's uwatec_smart_device" where
  "uwatec_smart_device_version io device data sz =
     (if sz < UWATEC_SMART_VERSION_SIZE then (DC_STATUS_NOMEMORY, data, device)
      else
        let (rc, data1, device1) = uwatec_smart_transfer io device [0x10] 1 data 0 1 in
        if rc \<noteq> DC_STATUS_SUCCESS then (rc, data1, device1)
        else
          let (rc2, data2, device2) = uwatec_smart_transfer io device1 [0x14] 1 data1 1 4 in
          if rc2 \<noteq> DC_STATUS_SUCCESS then (rc2, data2, device2)
          else
            let (rc3, data3, device3) = uwatec_smart_transfer io device2 [0x1A] 1 data2 5 4 in
            if rc3 \<noteq> DC_STATUS_SUCCESS then (rc3, data3, device3)
            else (DC_STATUS_SUCCESS, data3, device3))"

text \<open>
  Modelled from the spec: the buffer utility (\<^verbatim>\<open>dc_buffer_clear\<close>, \<^verbatim>\<open>dc_buffer_resize\<close>,
  \<^verbatim>\<open>dc_buffer_get_data\<close>, \<^verbatim>\<open>dc_buffer_get_size\<close>) is not among the sources. The spec
  describes an owned, growable byte container whose clear and resize have ``zero-length
  / zero-fill semantics'', and a resize that can fail for lack of memory. A buffer is its
  memory and its size; the pointer to it may be null, which is the one case in which
  clearing fails.
\<close>

record dc_buffer =
  buffer_data :: mem
  buffer_size :: nat

definition dc_buffer_clear :: "dc_buffer option \<Rightarrow> dc_buffer option" where
  "dc_buffer_clear buffer =
     (case buffer of None \<Rightarrow> None | Some b \<Rightarrow> Some (b\<lparr>buffer_size := 0\<rparr>))"

definition dc_buffer_resize :: "'s irda \<Rightarrow> dc_buffer \<Rightarrow> nat \<Rightarrow> dc_buffer option" where
  "dc_buffer_resize io b n =
     (if can_allocate io n
      then Some \<lparr>buffer_data = (\<lambda>i. if i < buffer_size b then buffer_data b i else 0),
                 buffer_size = n\<rparr>
      else None)"

text \<open>
  The events that \<^verbatim>\<open>device_event_emit\<close> is given, kept in the order of the calls: a
  progress event with its current and maximum, a clock event with the system and the
  device time, a device info event with model, firmware and serial.
\<close>

record dc_event_progress =
  progress_current :: uint
  progress_maximum :: uint

datatype dc_event =
    DC_EVENT_PROGRESS dc_event_progress
  | DC_EVENT_CLOCK int uint
  | DC_EVENT_DEVINFO uint uint uint

text \<open>
  Modelled from the spec: \<^verbatim>\<open>EVENT_PROGRESS_INITIALIZER\<close> is defined in a private header
  that is not among the sources. The spec's first progress event has \<open>current = 0\<close>; it
  does not say what the maximum is before the length is known, so that is the parameter
  \<open>initial_maximum\<close>.
\<close>

definition EVENT_PROGRESS_INITIALIZER :: "'s irda \<Rightarrow> dc_event_progress" where
  "EVENT_PROGRESS_INITIALIZER io =
     \<lparr>progress_current = 0, progress_maximum = initial_maximum io\<rparr>"

text \<open>
  The command template of the dump: the opcode, the four bytes of the timestamp, least
  significant first, and the trailer \<^verbatim>\<open>10 27 00 00\<close>.
\<close>

definition dump_command :: "byte \<Rightarrow> uint \<Rightarrow> byte list" where
  "dump_command opcode ts =
     [opcode,
      ucast (ts AND 0xFF),
      ucast (drop_bit 8 ts AND 0xFF),
      ucast (drop_bit 16 ts AND 0xFF),
      ucast (drop_bit 24 ts AND 0xFF),
      0x10, 0x27, 0, 0]"

text \<open>
  The chunked read loop \<^verbatim>\<open>while (nbytes < length)\<close>, from any loop state. The additions
  on \<^verbatim>\<open>nbytes\<close> are 32-bit, so that the loop ends is not taken for granted: not ending is
  the value \<open>None\<close>.
\<close>

partial_function (option) dump_loop ::
  "'s irda \<Rightarrow> 's uwatec_smart_device \<Rightarrow> mem \<Rightarrow> uint \<Rightarrow> uint \<Rightarrow> dc_event_progress
     \<Rightarrow> dc_event list
     \<Rightarrow> (dc_status \<times> 's uwatec_smart_device \<times> mem \<times> dc_event list) option" where
  "dump_loop io device data length' nbytes progress events =
     (if nbytes < length' then
        let len = 32;
            (available, s1) = irda_socket_available io (socket device);
            len1 = (if available > len then available else len);
            len2 = (if nbytes + len1 > length' then length' - nbytes else len1);
            ((n, bytes), s2) = irda_socket_read io s1 len2;
            data1 = mem_store_at data (unat nbytes) (take (unat len2) bytes);
            device1 = device\<lparr>socket := s2\<rparr>
        in
          if n \<noteq> len2 then Some (EXITCODE n, device1, data1, events)
          else
            let progress1 = progress\<lparr>progress_current := progress_current progress + n\<rparr>;
                events1 = events @ [DC_EVENT_PROGRESS progress1]
            in dump_loop io device1 data1 length' (nbytes + n) progress1 events1
      else Some (DC_STATUS_SUCCESS, device, data, events))"

text \<open>
  \<^verbatim>\<open>uwatec_smart_device_dump\<close>. The device and the buffer are changed in place by the
  source, so both are returned, with the events emitted. (The \<^verbatim>\<open>ERROR\<close> calls write to
  the log of the context, which is not modelled.)
\<close>

definition uwatec_smart_device_dump ::
  "'s irda \<Rightarrow> 's uwatec_smart_device option \<Rightarrow> dc_buffer option \<Rightarrow> dc_event list
     \<Rightarrow> (dc_status \<times> 's uwatec_smart_device option \<times> dc_buffer option \<times> dc_event list) option"
  where
  "uwatec_smart_device_dump io abstract buffer events =
     (if \<not> device_is_uwatec_smart abstract then Some (DC_STATUS_INVALIDARGS, abstract, buffer, events)
      else
        let device = the abstract in
        case dc_buffer_clear buffer of
          None \<Rightarrow> Some (DC_STATUS_NOMEMORY, abstract, buffer, events)
        | Some buffer1 \<Rightarrow>
            let progress = EVENT_PROGRESS_INITIALIZER io;
                events1 = events @ [DC_EVENT_PROGRESS progress];
                (rc, version, device1) =
                  uwatec_smart_device_version io device (\<lambda>i. 0) UWATEC_SMART_VERSION_SIZE
            in
              if rc \<noteq> DC_STATUS_SUCCESS then Some (rc, Some device1, Some buffer1, events1)
              else
                let device2 = device1\<lparr>systime := dc_datetime_now io,
                                       devtime := array_uint32_le (ptr_add version 5)\<rparr>;
                    progress1 = progress\<lparr>progress_current := progress_current progress + 9\<rparr>;
                    events2 = events1 @
                      [DC_EVENT_PROGRESS progress1,
                       DC_EVENT_CLOCK (systime device2) (devtime device2),
                       DC_EVENT_DEVINFO (ucast (version 0)) 0 (array_uint32_le (ptr_add version 1))];
                    (rc1, answer, device3) =
                      uwatec_smart_transfer io device2 (dump_command 0xC6 (timestamp device2)) 9
                        (\<lambda>i. 0) 0 4
                in
                  if rc1 \<noteq> DC_STATUS_SUCCESS then Some (rc1, Some device3, Some buffer1, events2)
                  else
                    let length' = array_uint32_le answer;
                        progress2 = progress1
                          \<lparr>progress_maximum := 4 + 9 + (if length' \<noteq> 0 then length' + 4 else 0),
                           progress_current := progress_current progress1 + 4\<rparr>;
                        events3 = events2 @ [DC_EVENT_PROGRESS progress2]
                    in
                      if length' = 0 then Some (DC_STATUS_SUCCESS, Some device3, Some buffer1, events3)
                      else
                        case dc_buffer_resize io buffer1 (unat length') of
                          None \<Rightarrow> Some (DC_STATUS_NOMEMORY, Some device3, Some buffer1, events3)
                        | Some buffer2 \<Rightarrow>
                            let (rc2, answer1, device4) =
                                  uwatec_smart_transfer io device3
                                    (dump_command 0xC4 (timestamp device2)) 9 answer 0 4
                            in
                              if rc2 \<noteq> DC_STATUS_SUCCESS
                              then Some (rc2, Some device4, Some buffer2, events3)
                              else
                                let total = array_uint32_le answer1;
                                    progress3 = progress2
                                      \<lparr>progress_current := progress_current progress2 + 4\<rparr>;
                                    events4 = events3 @ [DC_EVENT_PROGRESS progress3]
                                in
                                  if total \<noteq> length' + 4
                                  then Some (DC_STATUS_PROTOCOL, Some device4, Some buffer2, events4)
                                  else
                                    case dump_loop io device4 (buffer_data buffer2) length' 0
                                           progress3 events4 of
                                      None \<Rightarrow> None
                                    | Some (rc3, device5, data, events5) \<Rightarrow>
                                        Some (rc3, Some device5,
                                              Some (buffer2\<lparr>buffer_data := data\<rparr>), events5))"

text \<open>
  \<^verbatim>\<open>uwatec_smart_device_foreach\<close>: a new buffer (the allocation may fail), the dump, and
  the splitter over what the dump has stored. The size is passed as an
  \<^verbatim>\<open>unsigned int\<close>.
\<close>

definition uwatec_smart_device_foreach ::
  "'s irda \<Rightarrow> 's uwatec_smart_device option \<Rightarrow> 'u dc_dive_callback option \<Rightarrow> 'u
     \<Rightarrow> dc_event list
     \<Rightarrow> (dc_status \<times> 's uwatec_smart_device option \<times> 'u \<times> dc_event list) option" where
  "uwatec_smart_device_foreach io abstract callback u events =
     (if \<not> device_is_uwatec_smart abstract then Some (DC_STATUS_INVALIDARGS, abstract, u, events)
      else if \<not> can_allocate io 0 then Some (DC_STATUS_NOMEMORY, abstract, u, events)
      else
        case uwatec_smart_device_dump io abstract
               (Some \<lparr>buffer_data = (\<lambda>i. 0), buffer_size = 0\<rparr>) events of
          None \<Rightarrow> None
        | Some (rc, abstract1, buffer, events1) \<Rightarrow>
            if rc \<noteq> DC_STATUS_SUCCESS then Some (rc, abstract1, u, events1)
            else
              let (rc1, u1, probes) =
                    uwatec_smart_extract_dives abstract1
                      (buffer_data (the buffer)) (of_nat (buffer_size (the buffer))) callback u
              in Some (rc1, abstract1, u1, events1))"


section \<open>Conditions and concrete inputs of the statements\<close>

text \<open>
  The loop body of the splitter accepts the record at position \<open>p\<close> and goes on: the
  marker is at \<open>p\<close>, the overflow check passes, and the consumer (if there is one) does
  not answer 0; \<open>u1\<close> is the user data as the consumer leaves it.
\<close>

definition record_accepted ::
  "mem \<Rightarrow> 'u dc_dive_callback option \<Rightarrow> uint \<Rightarrow> uint \<Rightarrow> 'u \<Rightarrow> 'u \<Rightarrow> bool" where
  "record_accepted data callback previous p u u1 =
     (let len = array_uint32_le (ptr_add data (unat p + 4)) in
      memcmp_eq (ptr_add data (unat p)) header 4 \<and> \<not> previous < p + len \<and>
      (case callback of
         None \<Rightarrow> u1 = u
       | Some f \<Rightarrow> fst (f data (unat p) len (unat p + 8) 4 u) \<noteq> 0 \<and>
                  u1 = snd (f data (unat p) len (unat p + 8) 4 u)))"

text \<open>
  A dump of 17 bytes with the marker at 4 and at 8; the length field behind the marker
  at 8 is 4, and the one behind the marker at 4 is the marker at 8 itself.
\<close>

definition two_markers :: mem where
  "two_markers =
     mem_of [0, 0, 0, 0, 0xA5, 0xA5, 0x5A, 0x5A, 0xA5, 0xA5, 0x5A, 0x5A, 4, 0, 0, 0, 0] 0"

text \<open>
  A dump of 25 bytes with two well-formed records: one of 12 bytes at 0 and one of 13
  bytes at 12.
\<close>

definition two_dives :: mem where
  "two_dives =
     mem_of [0xA5, 0xA5, 0x5A, 0x5A, 12, 0, 0, 0, 1, 1, 1, 1,
             0xA5, 0xA5, 0x5A, 0x5A, 13, 0, 0, 0, 2, 2, 2, 2, 0] 0"


text \<open>
  A transport that follows a script: every write returns the next result of the script
  and is logged with the bytes it was given, every read returns the next result and
  bytes of the script, and \<^verbatim>\<open>available\<close> the next count. When the script has run out a
  write and a read return \<open>-1\<close> and \<^verbatim>\<open>available\<close> returns 0. The clock stands at 1000,
  every allocation succeeds, and a progress event starts with the largest maximum.
\<close>

record script =
  write_results :: "uint list"
  read_results :: "(uint \<times> byte list) list"
  available_results :: "uint list"
  sent :: "byte list list"

definition scripted :: "script irda" where
  "scripted =
     \<lparr>irda_socket_write = (\<lambda>s bs.
        case write_results s of
          [] \<Rightarrow> (- 1, s\<lparr>sent := sent s @ [bs]\<rparr>)
        | r # rs \<Rightarrow> (r, s\<lparr>write_results := rs, sent := sent s @ [bs]\<rparr>)),
      irda_socket_read = (\<lambda>s n.
        case read_results s of
          [] \<Rightarrow> ((- 1, []), s)
        | r # rs \<Rightarrow> (r, s\<lparr>read_results := rs\<rparr>)),
      irda_socket_available = (\<lambda>s.
        case available_results s of
          [] \<Rightarrow> (0, s)
        | a # as \<Rightarrow> (a, s\<lparr>available_results := as\<rparr>)),
      dc_datetime_now = 1000,
      can_allocate = (\<lambda>n. True),
      initial_maximum = - 1\<rparr>"

text \<open>A Uwatec Smart device on a socket, with no fingerprint set.\<close>

definition smart_device :: "'s \<Rightarrow> 's uwatec_smart_device" where
  "smart_device s =
     \<lparr>device_backend = Uwatec_smart_device_backend, socket = s, address = 1,
      timestamp = 0, devtime = 0, systime = - 1\<rparr>"


text \<open>
  Three scripts for a dump. In all of them the three device info queries are answered
  with model \<^verbatim>\<open>10\<close>, serial 1 and device clock 100. In the first the length query is
  answered with length 0. In the second it is answered with length 8 and the data query
  with the total 11, which is not \<open>8 + 4\<close>; the eight payload bytes wait behind it. In the
  third the length query is answered with \<^verbatim>\<open>FC FF FF FF\<close>, the length \<open>2^32 - 4\<close>, and the
  data query with \<^verbatim>\<open>00 00 00 00\<close>, the total 0; one chunk of 32 payload bytes waits behind
  it, and then the script has run out.
\<close>

definition empty_dump_script :: script where
  "empty_dump_script =
     \<lparr>write_results = [1, 1, 1, 9],
      read_results = [(1, [0x10]), (4, [1, 0, 0, 0]), (4, [100, 0, 0, 0]), (4, [0, 0, 0, 0])],
      available_results = [], sent = []\<rparr>"

definition mismatch_script :: script where
  "mismatch_script =
     \<lparr>write_results = [1, 1, 1, 9, 9],
      read_results = [(1, [0x10]), (4, [1, 0, 0, 0]), (4, [100, 0, 0, 0]), (4, [8, 0, 0, 0]),
                      (4, [11, 0, 0, 0]), (8, [1, 2, 3, 4, 5, 6, 7, 8])],
      available_results = [], sent = []\<rparr>"

definition wrapped_total_script :: script where
  "wrapped_total_script =
     \<lparr>write_results = [1, 1, 1, 9, 9],
      read_results = [(1, [0x10]), (4, [1, 0, 0, 0]), (4, [100, 0, 0, 0]),
                      (4, [0xFC, 0xFF, 0xFF, 0xFF]), (4, [0, 0, 0, 0]),
                      (32, [1, 2, 3, 4, 5, 6, 7, 8, 9, 10, 11, 12, 13, 14, 15, 16,
                            17, 18, 19, 20, 21, 22, 23, 24, 25, 26, 27, 28, 29, 30, 31, 32])],
      available_results = [], sent = []\<rparr>"


section \<open>Facts for evaluating the model on concrete inputs\<close>

declare extract_loop.simps [simp del]

lemma mem_of_apply: "mem_of bs rest i = (if i < length bs then bs ! i else rest)"
  by (simp add: mem_of_def)

lemma ptr_add_apply: "ptr_add p k i = p (k + i)"
  by (simp add: ptr_add_def)

lemma memcmp_eq_header:
  "memcmp_eq p header 4 \<longleftrightarrow> p 0 = 0xa5 \<and> p 1 = 0xa5 \<and> p 2 = 0x5a \<and> p 3 = 0x5a"
proof -
  have "[0..<4] = [0, 1, 2, 3::nat]"
    by (simp add: upt_rec)
  then show ?thesis
    by (simp add: memcmp_eq_def header_def)
qed

lemma not_4_le_1: "\<not> (4::uint) \<le> 1"
  by (simp add: word_le_nat_alt)

lemmas decoder_eval = suunto_solution_parser_samples_foreach_def parser_is_suunto_solution_def
  solution_parser_def mem_of_apply call_sample_def keep_samples_def event_type_def
  samples_loop.simps

lemmas splitter_eval = uwatec_smart_extract_dives_def device_is_uwatec_smart_def mem_of_apply
  ptr_add_apply memcmp_eq_header array_uint32_le_def keep_dives_def extract_loop.simps
  not_4_le_1


lemma mem_store_at_apply:
  "mem_store_at p k bs i = (if k \<le> i \<and> i < k + length bs then bs ! (i - k) else p i)"
  by (simp add: mem_store_at_def)

lemmas dump_steps = mem_store_at_apply uwatec_smart_device_version_def
  UWATEC_SMART_VERSION_SIZE_def device_is_uwatec_smart_def dc_buffer_resize_def
  dump_command_def array_uint32_le_def ptr_add_apply uwatec_smart_transfer_def EXITCODE_def
  scripted_def smart_device_def


section \<open>The sample stream decoder: overflow continuation\<close>











section \<open>The sample stream decoder: the end of the stream\<close>

text \<open>
  Claim C3 (the decoder only reads indices below the size) does not hold of the code.
  The same five bytes \<^verbatim>\<open>00 00 00 05 07\<close> with the same size 5 are decoded with success
  when the byte behind the buffer, \<^verbatim>\<open>data[5]\<close>, is \<^verbatim>\<open>0x80\<close> and with a format error when
  it is 0: after the loop has ended with \<^verbatim>\<open>offset == size\<close> the test
  \<^verbatim>\<open>data[offset] != 0x80\<close> reads \<^verbatim>\<open>data[size]\<close>.
\<close>

theorem samples_foreach_reads_data_at_size:
  "suunto_solution_parser_samples_foreach
     (Some (solution_parser [0, 0, 0, 5, 7] 0x80)) (Some (keep_samples ())) []
   = Some (DC_STATUS_SUCCESS,
           [Sample_time 180, Sample_depth_ft 5, Sample_time 360, Sample_depth_ft 12])
   \<and> suunto_solution_parser_samples_foreach
     (Some (solution_parser [0, 0, 0, 5, 7] 0x00)) (Some (keep_samples ())) []
   = Some (DC_STATUS_DATAFORMAT,
           [Sample_time 180, Sample_depth_ft 5, Sample_time 360, Sample_depth_ft 12])
   \<and> parser_size (solution_parser [0, 0, 0, 5, 7] 0x80) = 5
   \<and> map (parser_data (solution_parser [0, 0, 0, 5, 7] 0x80)) [0, 1, 2, 3, 4]
     = map (parser_data (solution_parser [0, 0, 0, 5, 7] 0x00)) [0, 1, 2, 3, 4]"
  by (simp add: decoder_eval)


text \<open>
  Claim C5 (a stream with no \<^verbatim>\<open>0x80\<close> before the end of the buffer is a format error)
  does not hold of the code, for the same reason: the four bytes \<^verbatim>\<open>00 00 00 01\<close> hold no
  \<^verbatim>\<open>0x80\<close>, and with \<^verbatim>\<open>0x80\<close> behind the buffer the decoder returns success.
\<close>

theorem samples_foreach_accepts_unterminated_stream:
  "suunto_solution_parser_samples_foreach
     (Some (solution_parser [0, 0, 0, 1] 0x80)) (Some (keep_samples ())) []
   = Some (DC_STATUS_SUCCESS, [Sample_time 180, Sample_depth_ft 1])
   \<and> 0x80 \<notin> set [0, 0, 0, 1 :: byte]"
  by (simp add: decoder_eval)


text \<open>
  The other half of claim C5 does hold: with the terminal marker at the first decodable
  position the decoder succeeds and returns the user data as it was given, so the
  consumer has not been called.
\<close>

lemma samples_foreach_terminal_first:
  assumes "parser_is_suunto_solution abstract"
    and "4 \<le> parser_size (the abstract)"
    and "parser_data (the abstract) 3 = 0x80"
  shows "suunto_solution_parser_samples_foreach abstract callback u = Some (DC_STATUS_SUCCESS, u)"
proof -
  have "\<not> parser_size (the abstract) < 4"
    using assms(2) by (simp add: not_less)
  then show ?thesis
    using assms(1,3)
    by (simp add: suunto_solution_parser_samples_foreach_def samples_loop.simps)
qed


text \<open>
  What is left of the first half of claim C5. On a buffer of fewer than \<open>2^32 - 1\<close>
  bytes the loop returns, whatever the bytes are; and on a stream with no \<^verbatim>\<open>0x80\<close> from
  index 3 to the end of the buffer the decoder returns a format error, or else success
  with \<^verbatim>\<open>data[size] == 0x80\<close>: the byte behind the buffer alone decides.
\<close>

lemma samples_loop_returns:
  assumes small: "unat sz < 2 ^ 32 - 1"
  shows "offset \<le> sz \<Longrightarrow> \<exists>r. samples_loop data sz callback offset time depth u = Some r"
proof (induction "unat sz - unat offset" arbitrary: offset time depth u rule: less_induct)
  case less
  show ?case
  proof (cases "offset < sz \<and> data (unat offset) \<noteq> 0x80")
    case False
    then show ?thesis
      by (subst samples_loop.simps) auto
  next
    case True
    then have lt: "unat offset < unat sz"
      by (simp add: word_less_nat_alt)
    have o1: "unat (offset + 1) = unat offset + 1"
      using lt small unat_add_lem [of offset 1] by simp
    have o2: "unat (offset + 2) = unat offset + 2"
      using lt small unat_add_lem [of offset 2] by simp
    have IH1: "\<exists>r. samples_loop data sz callback (offset + 1) t d w = Some r" for t d w
      using less(1) [of "offset + 1" t d w] o1 lt by (simp add: word_le_nat_alt)
    have IH2: "\<exists>r. samples_loop data sz callback (offset + 2) t d w = Some r"
      if "\<not> sz < offset + 2" for t d w
      using less(1) [of "offset + 2" t d w] that o2 lt
      by (simp add: word_le_nat_alt word_less_nat_alt)
    show ?thesis
      using True IH1 IH2
      by (subst samples_loop.simps) (auto simp: Let_def add.commute [of 2])
  qed
qed

lemma samples_foreach_returns:
  assumes "\<And>p. abstract = Some p \<Longrightarrow> unat (parser_size p) < 2 ^ 32 - 1"
  shows "\<exists>r. suunto_solution_parser_samples_foreach abstract callback u = Some r"
proof (cases "parser_is_suunto_solution abstract \<and> \<not> parser_size (the abstract) < 4")
  case False
  then show ?thesis
    by (auto simp: suunto_solution_parser_samples_foreach_def)
next
  case True
  then obtain p where p: "abstract = Some p"
    by (cases abstract) (auto simp: parser_is_suunto_solution_def)
  from True p have "3 \<le> parser_size p"
    by (simp add: word_le_nat_alt word_less_nat_alt)
  from samples_loop_returns [OF assms [OF p] this, of "parser_data p" callback 0 0 u]
  obtain r where "samples_loop (parser_data p) (parser_size p) callback 3 0 0 u = Some r" ..
  then show ?thesis
    using True p
    by (cases r) (auto simp: suunto_solution_parser_samples_foreach_def split: sum.splits)
qed

lemma samples_loop_unterminated:
  assumes small: "unat sz < 2 ^ 32 - 1"
    and none: "\<And>i. i < unat sz \<Longrightarrow> 3 \<le> i \<Longrightarrow> data i \<noteq> 0x80"
  shows "offset \<le> sz \<Longrightarrow> 3 \<le> offset \<Longrightarrow>
    \<exists>r w. samples_loop data sz callback offset time depth u = Some (r, w)
       \<and> (r = Inl DC_STATUS_DATAFORMAT \<or> r = Inr sz)"
proof (induction "unat sz - unat offset" arbitrary: offset time depth u rule: less_induct)
  case less
  have three: "3 \<le> unat offset"
    using less(3) by (simp add: word_le_nat_alt)
  show ?case
  proof (cases "offset < sz")
    case False
    with less(2) have "offset = sz" by simp
    then show ?thesis
      by (subst samples_loop.simps) auto
  next
    case True
    then have lt: "unat offset < unat sz"
      by (simp add: word_less_nat_alt)
    have v: "data (unat offset) \<noteq> 0x80"
      using none [OF lt three] .
    have o1: "unat (offset + 1) = unat offset + 1"
      using lt small unat_add_lem [of offset 1] by simp
    have o2: "unat (offset + 2) = unat offset + 2"
      using lt small unat_add_lem [of offset 2] by simp
    have IH1: "\<exists>r w. samples_loop data sz callback (offset + 1) t d x = Some (r, w)
       \<and> (r = Inl DC_STATUS_DATAFORMAT \<or> r = Inr sz)" for t d x
      using less(1) [of "offset + 1" t d x] o1 lt three by (simp add: word_le_nat_alt)
    have IH2: "\<exists>r w. samples_loop data sz callback (offset + 2) t d x = Some (r, w)
       \<and> (r = Inl DC_STATUS_DATAFORMAT \<or> r = Inr sz)"
      if "\<not> sz < offset + 2" for t d x
      using less(1) [of "offset + 2" t d x] that o2 lt three
      by (simp add: word_le_nat_alt word_less_nat_alt)
    show ?thesis
      using True v IH1 IH2
      by (subst samples_loop.simps) (auto simp: Let_def add.commute [of 2])
  qed
qed

lemma samples_foreach_unterminated:
  assumes "parser_is_suunto_solution abstract" and "abstract = Some p"
    and "unat (parser_size p) < 2 ^ 32 - 1"
    and "\<And>i. i < unat (parser_size p) \<Longrightarrow> 3 \<le> i \<Longrightarrow> parser_data p i \<noteq> 0x80"
  shows "\<exists>st w. suunto_solution_parser_samples_foreach abstract callback u = Some (st, w)
         \<and> (st = DC_STATUS_DATAFORMAT
            \<or> st = DC_STATUS_SUCCESS \<and> parser_data p (unat (parser_size p)) = 0x80)"
proof (cases "parser_size p < 4")
  case True
  then show ?thesis
    using assms(1,2) by (auto simp: suunto_solution_parser_samples_foreach_def)
next
  case False
  then have "3 \<le> parser_size p"
    by (simp add: word_le_nat_alt word_less_nat_alt)
  from samples_loop_unterminated [where data = "parser_data p" and sz = "parser_size p",
      OF assms(3) assms(4) this, of callback 0 0 u]
  obtain r w where "samples_loop (parser_data p) (parser_size p) callback 3 0 0 u = Some (r, w)"
      and "r = Inl DC_STATUS_DATAFORMAT \<or> r = Inr (parser_size p)"
    by auto
  then show ?thesis
    using False assms(1,2)
    by (auto simp: suunto_solution_parser_samples_foreach_def)
qed


section \<open>Consumers and the stop signal\<close>

text \<open>
  The decoder's loop with two consumers that the loop cannot tell apart: if it returns
  with one, it returns the same with the other (by the induction rule of the loop), so
  the two runs are equal, returning or not.
\<close>

lemma call_sample_snd_cong:
  assumes "\<And>t s u. snd (f t s u) = snd (g t s u)"
  shows "call_sample (Some f) = call_sample (Some g)"
  using assms by (intro ext) (simp add: call_sample_def)

lemma samples_loop_dir:
  assumes fg: "call_sample cf = call_sample cg"
    and run: "samples_loop data sz cf offset time depth u = Some y"
  shows "samples_loop data sz cg offset time depth u = Some y"
proof -
  note R = samples_loop.raw_induct [where P = "\<lambda>data sz cb offset time depth u y.
      cb = cf \<longrightarrow> samples_loop data sz cg offset time depth u = Some y"]
  have "cf = cf \<longrightarrow> samples_loop data sz cg offset time depth u = Some y"
  proof (rule R [OF _ run], goal_cases)
    case (1 lp data sz cb offset time depth u y)
    show ?case
    proof
      assume cb: "cb = cf"
      have IH: "samples_loop d s cg o' t dp w = Some z"
        if "lp d s cf o' t dp w = Some z" for d s o' t dp w z
        using 1(1) [OF that] by simp
      show "samples_loop data sz cg offset time depth u = Some y"
        using 1(2) unfolding cb
        by (subst samples_loop.simps) (auto simp: Let_def fg split: if_splits intro: IH)
    qed
  qed
  then show ?thesis by simp
qed

lemma samples_loop_answer_irrelevant:
  assumes "call_sample cf = call_sample cg"
  shows "samples_loop data sz cf offset time depth u = samples_loop data sz cg offset time depth u"
proof (cases "samples_loop data sz cf offset time depth u")
  case None
  show ?thesis
  proof (cases "samples_loop data sz cg offset time depth u")
    case (Some y)
    from samples_loop_dir [OF assms [symmetric] Some] None show ?thesis by simp
  qed (simp add: None)
next
  case (Some y)
  from samples_loop_dir [OF assms Some] Some show ?thesis by simp
qed

lemma samples_foreach_answer_irrelevant:
  assumes "\<And>t s w. snd (g t s w) = snd (h t s w)"
  shows "suunto_solution_parser_samples_foreach abstract (Some g) u
       = suunto_solution_parser_samples_foreach abstract (Some h) u"
  unfolding suunto_solution_parser_samples_foreach_def
  by (simp only: samples_loop_answer_irrelevant [OF call_sample_snd_cong [of g h, OF assms]])

lemma extract_loop_stop:
  assumes "0 < current"
    and "memcmp_eq (ptr_add data (unat (current - 1))) header 4"
    and "len = array_uint32_le (ptr_add data (unat (current - 1) + 4))"
    and "\<not> previous < current - 1 + len"
    and "f data (unat (current - 1)) len (unat (current - 1) + 8) 4 u = (0, u1)"
  shows "extract_loop data (Some f) previous current u probes
       = (DC_STATUS_SUCCESS, u1, probes @ [current - 1])"
  using assms by (subst extract_loop.simps) (simp add: Let_def)


text \<open>
  Claim C4, as the code has it. The dive consumer returns an \<^verbatim>\<open>int\<close>; when it answers 0
  for the record at the position probed, the splitter returns at once with success, the
  user data as that call left it and no further position probed. The sample decoder
  drops whatever the sample consumer returns: two consumers that do the same to the user
  data get the same run, whatever they answer, so no answer stops the decoder.
\<close>

theorem consumer_stop_signal:
  "(0 < current \<and> memcmp_eq (ptr_add data (unat (current - 1))) header 4
      \<and> len = array_uint32_le (ptr_add data (unat (current - 1) + 4))
      \<and> \<not> previous < current - 1 + len
      \<and> f data (unat (current - 1)) len (unat (current - 1) + 8) 4 u = (0, u1)
    \<longrightarrow> extract_loop data (Some f) previous current u probes
          = (DC_STATUS_SUCCESS, u1, probes @ [current - 1]))
   \<and> ((\<forall>t s w. snd (g t s w) = snd (h t s w))
    \<longrightarrow> suunto_solution_parser_samples_foreach abstract (Some g) v
          = suunto_solution_parser_samples_foreach abstract (Some h) v)"
  using extract_loop_stop [of current data len previous f u u1 probes]
    samples_foreach_answer_irrelevant [of g h abstract v]
  by blast


text \<open>
  The theorem at the dump \<open>two_dives\<close>, the scan at the marker of the later record: the
  consumer that answers 0 gets that one record and the splitter returns with success, in
  the loop and in the whole run, where a consumer that answers 1 gets both records. And
  at the stream \<^verbatim>\<open>01 02 80\<close>: the consumer that answers \<open>False\<close> and the one that answers
  \<open>True\<close> get the same samples.
\<close>

theorem consumer_stop_signal_witness:
  "0 < (13 :: uint)
   \<and> memcmp_eq (ptr_add two_dives (unat (13 - 1 :: uint))) header 4
   \<and> (13 :: uint) = array_uint32_le (ptr_add two_dives (unat (13 - 1 :: uint) + 4))
   \<and> \<not> (25 :: uint) < 13 - 1 + 13
   \<and> keep_dives 0 two_dives (unat (13 - 1 :: uint)) 13 (unat (13 - 1 :: uint) + 8) 4 []
     = (0, [(12, 13)])
   \<and> extract_loop two_dives (Some (keep_dives 0)) 25 13 [] []
     = (DC_STATUS_SUCCESS, [(12, 13)], [12])
   \<and> uwatec_smart_extract_dives None two_dives 25 (Some (keep_dives 0)) []
     = (DC_STATUS_SUCCESS, [(12, 13)], [20, 19, 18, 17, 16, 15, 14, 13, 12])
   \<and> uwatec_smart_extract_dives None two_dives 25 (Some (keep_dives 1)) []
     = (DC_STATUS_SUCCESS, [(12, 13), (0, 12)],
        [20, 19, 18, 17, 16, 15, 14, 13, 12, 7, 6, 5, 4, 3, 2, 1, 0])
   \<and> suunto_solution_parser_samples_foreach
       (Some (solution_parser [0, 0, 0, 1, 2, 0x80] 0)) (Some (keep_samples False)) []
     = suunto_solution_parser_samples_foreach
       (Some (solution_parser [0, 0, 0, 1, 2, 0x80] 0)) (Some (keep_samples True)) []"
  using consumer_stop_signal [where current = 13 and data = two_dives and len = 13
      and previous = 25 and f = "keep_dives 0" and u = "[]" and ?u1.0 = "[(12, 13)]"
      and probes = "[]" and g = "keep_samples False" and h = "keep_samples True"
      and abstract = "Some (solution_parser [0, 0, 0, 1, 2, 0x80] 0)" and v = "[]"]
  by (simp add: splitter_eval two_dives_def keep_samples_def)

text \<open>
  Claim C4 as the spec states it fails for the sample consumer: a consumer that answers
  \<open>False\<close> to every sample is still given all four samples of the stream \<^verbatim>\<open>01 02 80\<close>.
\<close>

theorem sample_consumer_stop_counterexample:
  "suunto_solution_parser_samples_foreach
     (Some (solution_parser [0, 0, 0, 1, 2, 0x80] 0)) (Some (keep_samples False)) []
   = Some (DC_STATUS_SUCCESS,
           [Sample_time 180, Sample_depth_ft 1, Sample_time 360, Sample_depth_ft 3])
   \<and> fst (keep_samples False DC_SAMPLE_TIME (Sample_time 180) []) = False"
  by (simp add: decoder_eval)


section \<open>The dive splitter: the positions probed\<close>

text \<open>
  The log of a run starts with the log the run was given; and a run from a state with
  \<^verbatim>\<open>current > 0\<close> probes \<^verbatim>\<open>current - 1\<close> first.
\<close>

lemma extract_loop_probes_prefix:
  "\<exists>ps. snd (snd (extract_loop data callback previous current (u :: 'u) probes)) = probes @ ps"
proof (induction "unat current" arbitrary: callback previous current u probes rule: less_induct)
  case less
  have step: "\<exists>ps. snd (snd (extract_loop data cb q c w (probes @ [current - 1])))
                = probes @ ps" if "unat c < unat current" for cb q c and w :: 'u
    using less [OF that, of cb q w "probes @ [current - 1]"] by auto
  show ?case
    by (subst extract_loop.simps)
       (auto simp: Let_def unat_pred_less unat_pred5_less unat_gt_0 word_neq_0_conv
             split: option.splits prod.splits intro!: step)
qed

lemma extract_loop_first_probe:
  assumes "0 < current"
  shows "\<exists>ps. snd (snd (extract_loop data callback previous current (u :: 'u) probes))
           = probes @ (current - 1) # ps"
proof -
  have *: "\<exists>ps. snd (snd (extract_loop data cb q c w (probes @ [current - 1])))
           = probes @ (current - 1) # ps" for cb q c and w :: 'u
    using extract_loop_probes_prefix [of data cb q c w "probes @ [current - 1]"] by simp
  show ?thesis
    using assms
    by (subst extract_loop.simps)
       (auto simp: Let_def split: option.splits prod.splits intro!: *)
qed

lemma extract_loop_done: "extract_loop data callback previous 0 u probes = (DC_STATUS_SUCCESS, u, probes)"
  by (subst extract_loop.simps) simp

lemma extract_loop_accept:
  assumes "0 < current" and "record_accepted data callback previous (current - 1) u u1"
  shows "extract_loop data callback previous current u probes
       = extract_loop data callback (current - 1)
           (if current - 1 \<ge> 4 then current - 1 - 4 else 0) u1 (probes @ [current - 1])"
  using assms
  by (subst extract_loop.simps)
     (auto simp: Let_def record_accepted_def split: option.splits prod.splits)

lemma accepted_next_words:
  "5 \<le> (p::uint) \<Longrightarrow> 4 \<le> p \<and> 0 < p - 4 \<and> p - 4 - 1 = p - 5"
  by unat_arith

lemma accepted_last_words: "(p::uint) < 5 \<Longrightarrow> (if 4 \<le> p then p - 4 else 0) = 0"
  by (auto simp: word_le_nat_alt word_less_nat_alt) unat_arith

lemma start_words: "5 \<le> (sz::uint) \<Longrightarrow> 4 \<le> sz \<and> 0 < sz - 4 \<and> sz - 4 - 1 = sz - 5"
  by (rule accepted_next_words)

lemma extract_loop_no_match:
  assumes "0 < current" and "\<not> memcmp_eq (ptr_add data (unat (current - 1))) header 4"
  shows "extract_loop data callback previous current u probes
       = extract_loop data callback previous (current - 1) u (probes @ [current - 1])"
  using assms by (subst extract_loop.simps) (simp add: Let_def)


text \<open>
  Claim C2, as the code has it. The loop decrements \<^verbatim>\<open>current\<close> before it compares, so
  the first position compared with the marker is \<open>size - 5\<close> (for a dump of at least 5
  bytes; a shorter dump is not probed at all and the splitter succeeds). From a position
  \<open>p > 0\<close> without the marker the scan goes to \<open>p - 1\<close>, and it ends with success behind
  position 0. After a record at \<open>p\<close> is accepted the next position compared is \<open>p - 5\<close>
  (for \<open>p \<ge> 5\<close>); for \<open>p < 5\<close> the scan ends there with success.
\<close>

theorem splitter_probe_positions:
  "((abstract = None \<or> device_is_uwatec_smart abstract) \<and> 5 \<le> sz \<longrightarrow>
      (\<exists>ps. snd (snd (uwatec_smart_extract_dives abstract data sz callback u)) = (sz - 5) # ps))
   \<and> ((abstract = None \<or> device_is_uwatec_smart abstract) \<and> sz < 5 \<longrightarrow>
      uwatec_smart_extract_dives abstract data sz callback u = (DC_STATUS_SUCCESS, u, []))
   \<and> (0 < current \<and> p = current - 1 \<and> record_accepted data callback previous p u u1 \<and> 5 \<le> p \<longrightarrow>
      (\<exists>ps. snd (snd (extract_loop data callback previous current u probes))
             = probes @ p # (p - 5) # ps))
   \<and> (0 < current \<and> p = current - 1 \<and> record_accepted data callback previous p u u1 \<and> p < 5 \<longrightarrow>
      extract_loop data callback previous current u probes
        = (DC_STATUS_SUCCESS, u1, probes @ [p]))
   \<and> (0 < current \<and> p = current - 1 \<and> \<not> memcmp_eq (ptr_add data (unat p)) header 4 \<and> 0 < p \<longrightarrow>
      (\<exists>ps. snd (snd (extract_loop data callback previous current u probes))
             = probes @ p # (p - 1) # ps))
   \<and> (0 < current \<and> p = current - 1 \<and> \<not> memcmp_eq (ptr_add data (unat p)) header 4 \<and> p = 0 \<longrightarrow>
      extract_loop data callback previous current u probes
        = (DC_STATUS_SUCCESS, u, probes @ [p]))"
proof (intro conjI impI; elim conjE)
  assume ok: "abstract = None \<or> device_is_uwatec_smart abstract" and sz: "5 \<le> sz"
  have "uwatec_smart_extract_dives abstract data sz callback u
        = extract_loop data callback sz (sz - 4) u []"
    using ok start_words [OF sz] by (auto simp: uwatec_smart_extract_dives_def)
  moreover have "\<exists>ps. snd (snd (extract_loop data callback sz (sz - 4) u [])) = [] @ (sz - 4 - 1) # ps"
    using start_words [OF sz] by (intro extract_loop_first_probe) simp
  ultimately show "\<exists>ps. snd (snd (uwatec_smart_extract_dives abstract data sz callback u)) = (sz - 5) # ps"
    using start_words [OF sz] by simp
next
  assume ok: "abstract = None \<or> device_is_uwatec_smart abstract" and sz: "sz < 5"
  show "uwatec_smart_extract_dives abstract data sz callback u = (DC_STATUS_SUCCESS, u, [])"
    using ok accepted_last_words [OF sz]
    by (auto simp: uwatec_smart_extract_dives_def extract_loop_done)
next
  assume c: "0 < current" and p: "p = current - 1"
    and acc: "record_accepted data callback previous p u u1" and p5: "5 \<le> p"
  have "extract_loop data callback previous current u probes
        = extract_loop data callback p (p - 4) u1 (probes @ [p])"
    using extract_loop_accept [OF c, of data callback previous u u1 probes] acc
      accepted_next_words [OF p5]
    unfolding p by simp
  moreover have "\<exists>ps. snd (snd (extract_loop data callback p (p - 4) u1 (probes @ [p])))
                  = (probes @ [p]) @ (p - 4 - 1) # ps"
    using accepted_next_words [OF p5] by (intro extract_loop_first_probe) simp
  ultimately show "\<exists>ps. snd (snd (extract_loop data callback previous current u probes))
             = probes @ p # (p - 5) # ps"
    using accepted_next_words [OF p5] by simp
next
  assume c: "0 < current" and p: "p = current - 1"
    and acc: "record_accepted data callback previous p u u1" and p5: "p < 5"
  show "extract_loop data callback previous current u probes
        = (DC_STATUS_SUCCESS, u1, probes @ [p])"
    using extract_loop_accept [OF c, of data callback previous u u1 probes] acc
      accepted_last_words [OF p5]
    unfolding p by (simp add: extract_loop_done)
next
  assume c: "0 < current" and p: "p = current - 1"
    and nm: "\<not> memcmp_eq (ptr_add data (unat p)) header 4" and p0: "0 < p"
  have "extract_loop data callback previous current u probes
        = extract_loop data callback previous p u (probes @ [p])"
    using extract_loop_no_match [OF c, of data callback previous u probes] nm
    unfolding p by simp
  moreover have "\<exists>ps. snd (snd (extract_loop data callback previous p u (probes @ [p])))
                  = (probes @ [p]) @ (p - 1) # ps"
    using p0 by (rule extract_loop_first_probe)
  ultimately show "\<exists>ps. snd (snd (extract_loop data callback previous current u probes))
             = probes @ p # (p - 1) # ps"
    by simp
next
  assume c: "0 < current" and p: "p = current - 1"
    and nm: "\<not> memcmp_eq (ptr_add data (unat p)) header 4" and p0: "p = 0"
  show "extract_loop data callback previous current u probes
        = (DC_STATUS_SUCCESS, u, probes @ [p])"
    using extract_loop_no_match [OF c, of data callback previous u probes] nm p0
    unfolding p by (simp add: extract_loop_done)
qed


text \<open>
  The theorem at the dump \<open>two_markers\<close>: the scan of its 17 bytes starts at 12, the
  record at 8 is accepted and the scan goes on at 3; of the bytes from index 8 on, a dump
  of the first 4 is not probed at all, and the scan of the first 9 accepts the record at
  0 and ends.
\<close>

theorem splitter_probe_positions_witness:
  "snd (snd (uwatec_smart_extract_dives None two_markers 17 (Some (keep_dives 1)) []))
     = [12, 11, 10, 9, 8, 3, 2, 1, 0]
   \<and> record_accepted two_markers (Some (keep_dives 1)) 17 8 [] [(8, 4)]
   \<and> snd (snd (extract_loop two_markers (Some (keep_dives 1)) 17 9 [] [12, 11, 10, 9]))
     = [12, 11, 10, 9, 8, 3, 2, 1, 0]
   \<and> uwatec_smart_extract_dives None (ptr_add two_markers 8) 4 (Some (keep_dives 1)) []
     = (DC_STATUS_SUCCESS, [], [])
   \<and> record_accepted (ptr_add two_markers 8) (Some (keep_dives 1)) 9 0 [] [(0, 4)]
   \<and> extract_loop (ptr_add two_markers 8) (Some (keep_dives 1)) 9 1 [] [3, 2, 1]
     = (DC_STATUS_SUCCESS, [(0, 4)], [3, 2, 1, 0])"
  using
    splitter_probe_positions [where abstract = None and sz = 17 and data = two_markers
      and callback = "Some (keep_dives 1)" and u = "[]" and current = 9 and p = 8
      and previous = 17 and ?u1.0 = "[(8, 4)]" and probes = "[12, 11, 10, 9]"]
    splitter_probe_positions [where abstract = None and sz = 4 and data = "ptr_add two_markers 8"
      and callback = "Some (keep_dives 1)" and u = "[]" and current = 1 and p = 0
      and previous = 9 and ?u1.0 = "[(0, 4)]" and probes = "[3, 2, 1]"]
  by (simp add: splitter_eval record_accepted_def two_markers_def)


text \<open>
  Claim C2 as the spec states it fails on that dump: the first position probed is 12,
  not \<open>size - 4 = 13\<close>, and behind the record accepted at 8 it is 3, not \<open>8 - 4 = 4\<close> (the
  marker at 4 is never compared).
\<close>

theorem splitter_first_probe_counterexample:
  "uwatec_smart_extract_dives None two_markers 17 (Some (keep_dives 1)) []
     = (DC_STATUS_SUCCESS, [(8, 4)], [12, 11, 10, 9, 8, 3, 2, 1, 0])
   \<and> (12 :: uint) \<noteq> 17 - 4 \<and> (3 :: uint) \<noteq> 8 - 4"
  by (simp add: splitter_eval two_markers_def)


section \<open>The dive splitter: the overflow check and the length field\<close>

text \<open>
  What the two checks of the splitter do give. Where the sum of the position and the
  length does not wrap around, a record that would end behind the previous record's
  start is rejected with a format error. And every position compared with the marker
  has the four bytes of the marker, and one byte more, inside the dump: \<open>p + 5 \<le> size\<close>,
  where the length field needs \<open>p + 8 \<le> size\<close>.
\<close>

lemma extract_loop_overlap_rejected:
  assumes "0 < current" and "p = current - 1"
    and "memcmp_eq (ptr_add data (unat p)) header 4"
    and "len = array_uint32_le (ptr_add data (unat p + 4))"
    and "unat p + unat len < 2 ^ 32"
    and "unat previous < unat p + unat len"
  shows "extract_loop data callback previous current u probes
       = (DC_STATUS_DATAFORMAT, u, probes @ [p])"
proof -
  have "unat (p + len) = unat p + unat len"
    using assms(5) unat_add_lem [of p len] by simp
  then have "previous < p + len"
    using assms(6) by (simp add: word_less_nat_alt)
  then show ?thesis
    using assms(1-4) by (subst extract_loop.simps) (simp add: Let_def)
qed

lemma extract_loop_probes_bound:
  "current = 0 \<or> unat current + 4 \<le> unat sz \<Longrightarrow>
   \<forall>p \<in> set probes. unat p + 5 \<le> unat sz \<Longrightarrow>
   \<forall>p \<in> set (snd (snd (extract_loop data callback previous current (u :: 'u) probes))).
      unat p + 5 \<le> unat (sz :: uint)"
proof (induction "unat current" arbitrary: callback previous current u probes rule: less_induct)
  case less
  show ?case
  proof (cases "0 < current")
    case False
    then have "current = 0" using word_gt_0 [of current] by auto
    then show ?thesis
      using less(3) by (simp add: extract_loop_done)
  next
    case True
    define c where "c = current - 1"
    have c: "unat c < unat current" "unat c + 5 \<le> unat sz"
      using True less(2) unat_pred_less [OF True] unat_minus_one [of current]
      by (auto simp: c_def word_neq_0_conv)
    have pr: "\<forall>p \<in> set (probes @ [c]). unat p + 5 \<le> unat sz"
      using less(3) c(2) by simp
    have next_ok: "n = 0 \<or> unat n + 4 \<le> unat sz" and next_less: "unat n < unat current"
      if "n = c \<or> n = (if 4 \<le> c then c - 4 else 0)" for n
      using that c unat_sub4_le [of c] by (auto split: if_splits)
    have step: "\<forall>p \<in> set (snd (snd (extract_loop data cb q n w (probes @ [c])))).
        unat p + 5 \<le> unat sz"
      if "n = c \<or> n = (if 4 \<le> c then c - 4 else 0)" for cb q n and w :: 'u
      using less(1) [OF next_less [OF that] next_ok [OF that] pr] .
    show ?thesis
      using True pr step [of c] step [of "if 4 \<le> c then c - 4 else 0"]
      unfolding c_def
      by (subst extract_loop.simps)
         (simp add: Let_def split: option.splits prod.splits)
  qed
qed

lemma extract_dives_probes_bound:
  "\<forall>p \<in> set (snd (snd (uwatec_smart_extract_dives abstract data sz callback u))).
      unat p + 5 \<le> unat sz"
proof (cases "abstract \<noteq> None \<and> \<not> device_is_uwatec_smart abstract")
  case True
  then show ?thesis
    by (simp add: uwatec_smart_extract_dives_def)
next
  case False
  have "(if 4 \<le> sz then sz - 4 else 0) = 0 \<or> unat (if 4 \<le> sz then sz - 4 else 0) + 4 \<le> unat sz"
    by (auto simp: unat_sub word_le_nat_alt)
  from extract_loop_probes_bound [OF this, of "[]" data callback sz u]
  show ?thesis
    using False by (simp add: uwatec_smart_extract_dives_def)
qed


text \<open>
  Claim C6 (no record is delivered whose payload ends behind the previous record's
  start) does not hold of the code. In a dump of 13 bytes with the marker at 1 and the
  length \<^verbatim>\<open>FF FF FF FF\<close>, the sum \<^verbatim>\<open>current + len\<close> wraps around to 0, the check
  \<^verbatim>\<open>current + len > previous\<close> passes, and the consumer is given a record at 1 of
  \<open>4294967295\<close> bytes.
\<close>

theorem splitter_delivers_record_past_the_buffer:
  "uwatec_smart_extract_dives None
     (mem_of [0, 0xA5, 0xA5, 0x5A, 0x5A, 0xFF, 0xFF, 0xFF, 0xFF, 0, 0, 0, 0] 0) 13
     (Some (keep_dives 1)) []
   = (DC_STATUS_SUCCESS, [(1, 0xFFFFFFFF)], [8, 7, 6, 5, 4, 3, 2, 1])
   \<and> 1 + unat (0xFFFFFFFF :: uint) > 13"
  by (simp add: splitter_eval)


text \<open>
  Claim C10 (a marker is only matched where its length field lies inside the dump) does
  not hold of the code. In a dump of 5 bytes that starts with the marker, the marker is
  matched at position 0 and the length is read from the bytes 4 to 7, three of them
  behind the dump: with zeros there the record is delivered, with \<^verbatim>\<open>FF\<close> there the
  splitter returns a format error.
\<close>

theorem splitter_reads_length_past_the_buffer:
  "uwatec_smart_extract_dives None (mem_of [0xA5, 0xA5, 0x5A, 0x5A, 0] 0) 5
     (Some (keep_dives 1)) []
   = (DC_STATUS_SUCCESS, [(0, 0)], [0])
   \<and> uwatec_smart_extract_dives None (mem_of [0xA5, 0xA5, 0x5A, 0x5A, 0] 0xFF) 5
     (Some (keep_dives 1)) []
   = (DC_STATUS_DATAFORMAT, [], [0])"
  by (simp add: splitter_eval)


section \<open>The command/response engine: count mismatches\<close>

text \<open>
  Claim C7, as the code has it. Both count checks of the transfer end in the macro
  \<^verbatim>\<open>EXITCODE\<close>. If the write returns a count other than the command's length, the
  transfer fails without reading: with \<^verbatim>\<open>DC_STATUS_IO\<close> when the write returned \<open>-1\<close>
  and with \<^verbatim>\<open>DC_STATUS_TIMEOUT\<close> for any other count. If the write returns the command's
  length and the read a count other than the answer's length, the transfer fails with
  \<^verbatim>\<open>DC_STATUS_IO\<close> when the read returned \<open>-1\<close> and with \<^verbatim>\<open>DC_STATUS_TIMEOUT\<close> for any
  other count. With both counts right it succeeds.
\<close>

theorem transfer_count_mismatch:
  assumes "irda_socket_write io (socket device) (take (unat csize) command) = (n, s1)"
    and "irda_socket_read io s1 asize = ((m, bytes), s2)"
  shows "(n \<noteq> csize \<longrightarrow>
            uwatec_smart_transfer io device command csize answer k asize
            = (if n = - 1 then DC_STATUS_IO else DC_STATUS_TIMEOUT, answer, device\<lparr>socket := s1\<rparr>))
       \<and> (n = csize \<and> m \<noteq> asize \<longrightarrow>
            fst (uwatec_smart_transfer io device command csize answer k asize)
            = (if m = - 1 then DC_STATUS_IO else DC_STATUS_TIMEOUT))
       \<and> (n = csize \<and> m = asize \<longrightarrow>
            fst (uwatec_smart_transfer io device command csize answer k asize)
            = DC_STATUS_SUCCESS)"
  using assms by (simp add: uwatec_smart_transfer_def EXITCODE_def)


text \<open>
  The theorem on the scripted transport: a write that returns \<open>-1\<close>; a full write and a
  read of 3 bytes where 4 were asked for; a full write and a full read.
\<close>

theorem transfer_count_mismatch_witness:
  "fst (uwatec_smart_transfer scripted
     (smart_device \<lparr>write_results = [- 1], read_results = [], available_results = [], sent = []\<rparr>)
     [0x10] 1 (\<lambda>i. 0) 0 1) = DC_STATUS_IO
   \<and> fst (uwatec_smart_transfer scripted
     (smart_device \<lparr>write_results = [1], read_results = [(3, [1, 2, 3])], available_results = [], sent = []\<rparr>)
     [0x14] 1 (\<lambda>i. 0) 0 4) = DC_STATUS_TIMEOUT
   \<and> fst (uwatec_smart_transfer scripted
     (smart_device \<lparr>write_results = [1], read_results = [(4, [1, 2, 3, 4])], available_results = [], sent = []\<rparr>)
     [0x14] 1 (\<lambda>i. 0) 0 4) = DC_STATUS_SUCCESS"
  using
    transfer_count_mismatch [where io = scripted
      and device = "smart_device \<lparr>write_results = [- 1], read_results = [], available_results = [], sent = []\<rparr>"
      and command = "[0x10]" and csize = 1 and asize = 1 and n = "- 1" and m = "- 1" and bytes = "[]"
      and ?s1.0 = "\<lparr>write_results = [], read_results = [], available_results = [], sent = [[0x10]]\<rparr>"
      and ?s2.0 = "\<lparr>write_results = [], read_results = [], available_results = [], sent = [[0x10]]\<rparr>"
      and answer = "\<lambda>i. 0" and k = 0]
    transfer_count_mismatch [where io = scripted
      and device = "smart_device \<lparr>write_results = [1], read_results = [(3, [1, 2, 3])], available_results = [], sent = []\<rparr>"
      and command = "[0x14]" and csize = 1 and asize = 4 and n = 1 and m = 3 and bytes = "[1, 2, 3]"
      and ?s1.0 = "\<lparr>write_results = [], read_results = [(3, [1, 2, 3])], available_results = [], sent = [[0x14]]\<rparr>"
      and ?s2.0 = "\<lparr>write_results = [], read_results = [], available_results = [], sent = [[0x14]]\<rparr>"
      and answer = "\<lambda>i. 0" and k = 0]
    transfer_count_mismatch [where io = scripted
      and device = "smart_device \<lparr>write_results = [1], read_results = [(4, [1, 2, 3, 4])], available_results = [], sent = []\<rparr>"
      and command = "[0x14]" and csize = 1 and asize = 4 and n = 1 and m = 4 and bytes = "[1, 2, 3, 4]"
      and ?s1.0 = "\<lparr>write_results = [], read_results = [(4, [1, 2, 3, 4])], available_results = [], sent = [[0x14]]\<rparr>"
      and ?s2.0 = "\<lparr>write_results = [], read_results = [], available_results = [], sent = [[0x14]]\<rparr>"
      and answer = "\<lambda>i. 0" and k = 0]
  by (simp add: scripted_def smart_device_def)


text \<open>
  Claim C7 as the spec states it fails for a short write: the transport takes 0 of the
  1 command byte, and the transfer fails with \<^verbatim>\<open>DC_STATUS_TIMEOUT\<close>, not with an I/O
  error; nothing is read.
\<close>

theorem short_write_counterexample:
  "uwatec_smart_transfer scripted
     (smart_device \<lparr>write_results = [0], read_results = [(1, [7])], available_results = [], sent = []\<rparr>)
     [0x10] 1 (\<lambda>i. 0) 0 1
   = (DC_STATUS_TIMEOUT, (\<lambda>i. 0),
      smart_device \<lparr>write_results = [], read_results = [(1, [7])], available_results = [], sent = [[0x10]]\<rparr>)"
  by (simp add: uwatec_smart_transfer_def EXITCODE_def scripted_def smart_device_def)


section \<open>The dump: an empty dump, and a total that does not fit\<close>

text \<open>
  Claim C8. The dump is called on a Uwatec Smart device with a buffer; the device info
  query succeeds and leaves the device as \<open>device1\<close>; the clock calibration is stored
  (\<open>device2\<close>); the length query (opcode \<^verbatim>\<open>C6\<close>) succeeds and leaves the device as
  \<open>device3\<close>, and its answer is the length 0. Then the dump returns success, the buffer
  is empty, and the device is \<open>device3\<close>: the socket is in the state in which the length
  query's read left it, so nothing was written or read after it, and no data query
  (opcode \<^verbatim>\<open>C4\<close>) in particular.
\<close>

theorem dump_empty:
  assumes "device_is_uwatec_smart abstract"
    and "buffer = Some b"
    and "uwatec_smart_device_version io (the abstract) (\<lambda>i. 0) UWATEC_SMART_VERSION_SIZE
           = (DC_STATUS_SUCCESS, version, device1)"
    and "device2 = device1\<lparr>systime := dc_datetime_now io,
                            devtime := array_uint32_le (ptr_add version 5)\<rparr>"
    and "uwatec_smart_transfer io device2 (dump_command 0xC6 (timestamp device2)) 9 (\<lambda>i. 0) 0 4
           = (DC_STATUS_SUCCESS, answer, device3)"
    and "array_uint32_le answer = 0"
  shows "\<exists>events1. uwatec_smart_device_dump io abstract buffer events
           = Some (DC_STATUS_SUCCESS, Some device3, Some (b\<lparr>buffer_size := 0\<rparr>), events1)"
  using assms
  by (simp add: uwatec_smart_device_dump_def dc_buffer_clear_def Let_def)


text \<open>
  The theorem on the script \<open>empty_dump_script\<close>, from a buffer of size 3: the dump
  succeeds with the buffer empty, and the log of the socket holds the four commands
  \<^verbatim>\<open>10\<close>, \<^verbatim>\<open>14\<close>, \<^verbatim>\<open>1A\<close> and \<^verbatim>\<open>C6 00 00 00 00 10 27 00 00\<close>, and no command \<^verbatim>\<open>C4\<close>.
\<close>

theorem dump_empty_witness:
  "\<exists>events1.
     uwatec_smart_device_dump scripted (Some (smart_device empty_dump_script))
       (Some \<lparr>buffer_data = (\<lambda>i. 0), buffer_size = 3\<rparr>) []
     = Some (DC_STATUS_SUCCESS,
             Some ((smart_device
                \<lparr>write_results = [], read_results = [], available_results = [],
                 sent = [[0x10], [0x14], [0x1A], [0xC6, 0, 0, 0, 0, 0x10, 0x27, 0, 0]]\<rparr>)
                \<lparr>systime := 1000, devtime := 100\<rparr>),
             Some (\<lparr>buffer_data = (\<lambda>i. 0), buffer_size = 3\<rparr>\<lparr>buffer_size := 0\<rparr>),
             events1)"
proof (rule dump_empty [where
      version = "mem_store_at (mem_store_at (mem_store_at (\<lambda>i. 0) 0 [0x10]) 1 [1, 0, 0, 0]) 5 [100, 0, 0, 0]"
      and ?device1.0 = "smart_device \<lparr>write_results = [9], read_results = [(4, [0, 0, 0, 0])],
            available_results = [], sent = [[0x10], [0x14], [0x1A]]\<rparr>"
      and answer = "mem_store_at (\<lambda>i. 0) 0 [0, 0, 0, 0]"])
  show "device_is_uwatec_smart (Some (smart_device empty_dump_script))"
    by (simp add: device_is_uwatec_smart_def smart_device_def)
  show "Some \<lparr>buffer_data = (\<lambda>i. 0), buffer_size = 3\<rparr> = Some \<lparr>buffer_data = (\<lambda>i. 0), buffer_size = 3\<rparr>"
    by (rule refl)
  show "uwatec_smart_device_version scripted (the (Some (smart_device empty_dump_script)))
          (\<lambda>i. 0) UWATEC_SMART_VERSION_SIZE
        = (DC_STATUS_SUCCESS,
           mem_store_at (mem_store_at (mem_store_at (\<lambda>i. 0) 0 [0x10]) 1 [1, 0, 0, 0]) 5 [100, 0, 0, 0],
           smart_device \<lparr>write_results = [9], read_results = [(4, [0, 0, 0, 0])],
             available_results = [], sent = [[0x10], [0x14], [0x1A]]\<rparr>)"
    by (simp add: dump_steps empty_dump_script_def)
  show "(smart_device \<lparr>write_results = [9], read_results = [(4, [0, 0, 0, 0])],
             available_results = [], sent = [[0x10], [0x14], [0x1A]]\<rparr>)
          \<lparr>systime := dc_datetime_now scripted,
           devtime := array_uint32_le (ptr_add
             (mem_store_at (mem_store_at (mem_store_at (\<lambda>i. 0) 0 [0x10]) 1 [1, 0, 0, 0]) 5 [100, 0, 0, 0]) 5)\<rparr>
        = (smart_device \<lparr>write_results = [9], read_results = [(4, [0, 0, 0, 0])],
             available_results = [], sent = [[0x10], [0x14], [0x1A]]\<rparr>)
          \<lparr>systime := dc_datetime_now scripted,
           devtime := array_uint32_le (ptr_add
             (mem_store_at (mem_store_at (mem_store_at (\<lambda>i. 0) 0 [0x10]) 1 [1, 0, 0, 0]) 5 [100, 0, 0, 0]) 5)\<rparr>"
    by (rule refl)
  show "uwatec_smart_transfer scripted
          ((smart_device \<lparr>write_results = [9], read_results = [(4, [0, 0, 0, 0])],
             available_results = [], sent = [[0x10], [0x14], [0x1A]]\<rparr>)
          \<lparr>systime := dc_datetime_now scripted,
           devtime := array_uint32_le (ptr_add
             (mem_store_at (mem_store_at (mem_store_at (\<lambda>i. 0) 0 [0x10]) 1 [1, 0, 0, 0]) 5 [100, 0, 0, 0]) 5)\<rparr>)
          (dump_command 0xC6 (timestamp ((smart_device \<lparr>write_results = [9], read_results = [(4, [0, 0, 0, 0])],
             available_results = [], sent = [[0x10], [0x14], [0x1A]]\<rparr>)
          \<lparr>systime := dc_datetime_now scripted,
           devtime := array_uint32_le (ptr_add
             (mem_store_at (mem_store_at (mem_store_at (\<lambda>i. 0) 0 [0x10]) 1 [1, 0, 0, 0]) 5 [100, 0, 0, 0]) 5)\<rparr>)))
          9 (\<lambda>i. 0) 0 4
        = (DC_STATUS_SUCCESS, mem_store_at (\<lambda>i. 0) 0 [0, 0, 0, 0],
           (smart_device
                \<lparr>write_results = [], read_results = [], available_results = [],
                 sent = [[0x10], [0x14], [0x1A], [0xC6, 0, 0, 0, 0, 0x10, 0x27, 0, 0]]\<rparr>)
                \<lparr>systime := 1000, devtime := 100\<rparr>)"
    by (simp add: dump_steps)
  show "array_uint32_le (mem_store_at (\<lambda>i. 0) 0 [0, 0, 0, 0]) = 0"
    by (simp add: dump_steps)
qed


text \<open>
  What the comparison of the total does give. As before up to the length query, whose
  answer is a length \<open>L\<close> other than 0; the buffer is resized to \<open>L\<close> bytes (\<open>b2\<close>); the data
  query (opcode \<^verbatim>\<open>C4\<close>) succeeds and leaves the device as \<open>device4\<close>, and its answer is a
  total other than \<open>L + 4\<close>, where the sum is the code's, of two \<^verbatim>\<open>unsigned int\<close>. Then the
  dump fails with \<^verbatim>\<open>DC_STATUS_PROTOCOL\<close>, and the device is \<open>device4\<close>: the socket is in
  the state in which the data query's read left it, so no payload chunk was read.
\<close>

lemma dump_total_mismatch:
  assumes "device_is_uwatec_smart abstract"
    and "buffer = Some b"
    and "uwatec_smart_device_version io (the abstract) (\<lambda>i. 0) UWATEC_SMART_VERSION_SIZE
           = (DC_STATUS_SUCCESS, version, device1)"
    and "device2 = device1\<lparr>systime := dc_datetime_now io,
                            devtime := array_uint32_le (ptr_add version 5)\<rparr>"
    and "uwatec_smart_transfer io device2 (dump_command 0xC6 (timestamp device2)) 9 (\<lambda>i. 0) 0 4
           = (DC_STATUS_SUCCESS, answer, device3)"
    and "L = array_uint32_le answer" and "L \<noteq> 0"
    and "dc_buffer_resize io (b\<lparr>buffer_size := 0\<rparr>) (unat L) = Some b2"
    and "uwatec_smart_transfer io device3 (dump_command 0xC4 (timestamp device2)) 9 answer 0 4
           = (DC_STATUS_SUCCESS, answer1, device4)"
    and "total1 = array_uint32_le answer1" and "total1 \<noteq> L + 4"
  shows "\<exists>events1. uwatec_smart_device_dump io abstract buffer events
           = Some (DC_STATUS_PROTOCOL, Some device4, Some b2, events1)"
  using assms
  by (simp add: uwatec_smart_device_dump_def dc_buffer_clear_def Let_def)


text \<open>
  So for every length up to \<open>2^32 - 5\<close>, where the sum does not wrap around, a total that
  is not \<open>L + 4\<close> as a number is a protocol error and no payload chunk is read.
\<close>

lemma dump_total_mismatch_no_wrap:
  assumes "device_is_uwatec_smart abstract"
    and "buffer = Some b"
    and "uwatec_smart_device_version io (the abstract) (\<lambda>i. 0) UWATEC_SMART_VERSION_SIZE
           = (DC_STATUS_SUCCESS, version, device1)"
    and "device2 = device1\<lparr>systime := dc_datetime_now io,
                            devtime := array_uint32_le (ptr_add version 5)\<rparr>"
    and "uwatec_smart_transfer io device2 (dump_command 0xC6 (timestamp device2)) 9 (\<lambda>i. 0) 0 4
           = (DC_STATUS_SUCCESS, answer, device3)"
    and "L = array_uint32_le answer" and "L \<noteq> 0"
    and "dc_buffer_resize io (b\<lparr>buffer_size := 0\<rparr>) (unat L) = Some b2"
    and "uwatec_smart_transfer io device3 (dump_command 0xC4 (timestamp device2)) 9 answer 0 4
           = (DC_STATUS_SUCCESS, answer1, device4)"
    and "total1 = array_uint32_le answer1"
    and "unat L + 4 < 2 ^ 32" and "unat total1 \<noteq> unat L + 4"
  shows "\<exists>events1. uwatec_smart_device_dump io abstract buffer events
           = Some (DC_STATUS_PROTOCOL, Some device4, Some b2, events1)"
proof -
  have "unat (L + 4) = unat L + unat (4::uint)"
    using assms(11) by (subst unat_add_lem [symmetric]) simp
  then have "total1 \<noteq> L + 4"
    using assms(12) by auto
  then show ?thesis
    by (rule dump_total_mismatch [OF assms(1-10)])
qed


text \<open>
  On the script \<open>mismatch_script\<close>: length 8, total 11. The dump fails with a protocol
  error; both queries are in the log of the socket, and the eight payload bytes are
  still unread in the script.
\<close>

lemma dump_total_mismatch_length_8_total_11:
  "\<exists>events1.
     uwatec_smart_device_dump scripted (Some (smart_device mismatch_script))
       (Some \<lparr>buffer_data = (\<lambda>i. 0), buffer_size = 3\<rparr>) []
     = Some (DC_STATUS_PROTOCOL,
             Some ((smart_device
                \<lparr>write_results = [], read_results = [(8, [1, 2, 3, 4, 5, 6, 7, 8])],
                 available_results = [],
                 sent = [[0x10], [0x14], [0x1A], [0xC6, 0, 0, 0, 0, 0x10, 0x27, 0, 0],
                         [0xC4, 0, 0, 0, 0, 0x10, 0x27, 0, 0]]\<rparr>)
                \<lparr>systime := 1000, devtime := 100\<rparr>),
             Some \<lparr>buffer_data = (\<lambda>i. 0), buffer_size = 8\<rparr>,
             events1)"
proof (rule dump_total_mismatch [where
      b = "\<lparr>buffer_data = (\<lambda>i. 0), buffer_size = 3\<rparr>"
      and version = "mem_store_at (mem_store_at (mem_store_at (\<lambda>i. 0) 0 [0x10]) 1 [1, 0, 0, 0]) 5 [100, 0, 0, 0]"
      and ?device1.0 = "smart_device \<lparr>write_results = [9, 9],
            read_results = [(4, [8, 0, 0, 0]), (4, [11, 0, 0, 0]), (8, [1, 2, 3, 4, 5, 6, 7, 8])],
            available_results = [], sent = [[0x10], [0x14], [0x1A]]\<rparr>"
      and ?device2.0 = "(smart_device \<lparr>write_results = [9, 9],
            read_results = [(4, [8, 0, 0, 0]), (4, [11, 0, 0, 0]), (8, [1, 2, 3, 4, 5, 6, 7, 8])],
            available_results = [], sent = [[0x10], [0x14], [0x1A]]\<rparr>)
            \<lparr>systime := 1000, devtime := 100\<rparr>"
      and answer = "mem_store_at (\<lambda>i. 0) 0 [8, 0, 0, 0]"
      and ?device3.0 = "(smart_device \<lparr>write_results = [9],
            read_results = [(4, [11, 0, 0, 0]), (8, [1, 2, 3, 4, 5, 6, 7, 8])],
            available_results = [],
            sent = [[0x10], [0x14], [0x1A], [0xC6, 0, 0, 0, 0, 0x10, 0x27, 0, 0]]\<rparr>)
            \<lparr>systime := 1000, devtime := 100\<rparr>"
      and L = 8
      and ?answer1.0 = "mem_store_at (mem_store_at (\<lambda>i. 0) 0 [8, 0, 0, 0]) 0 [11, 0, 0, 0]"
      and ?total1.0 = 11])
  show "device_is_uwatec_smart (Some (smart_device mismatch_script))"
    by (simp add: dump_steps)
  show "Some \<lparr>buffer_data = (\<lambda>i. 0), buffer_size = 3\<rparr>
        = Some \<lparr>buffer_data = (\<lambda>i. 0), buffer_size = 3\<rparr>"
    by (rule refl)
  show "uwatec_smart_device_version scripted (the (Some (smart_device mismatch_script)))
          (\<lambda>i. 0) UWATEC_SMART_VERSION_SIZE
        = (DC_STATUS_SUCCESS,
           mem_store_at (mem_store_at (mem_store_at (\<lambda>i. 0) 0 [0x10]) 1 [1, 0, 0, 0]) 5 [100, 0, 0, 0],
           smart_device \<lparr>write_results = [9, 9],
             read_results = [(4, [8, 0, 0, 0]), (4, [11, 0, 0, 0]), (8, [1, 2, 3, 4, 5, 6, 7, 8])],
             available_results = [], sent = [[0x10], [0x14], [0x1A]]\<rparr>)"
    by (simp add: dump_steps mismatch_script_def)
  show "(smart_device \<lparr>write_results = [9, 9],
            read_results = [(4, [8, 0, 0, 0]), (4, [11, 0, 0, 0]), (8, [1, 2, 3, 4, 5, 6, 7, 8])],
            available_results = [], sent = [[0x10], [0x14], [0x1A]]\<rparr>)
            \<lparr>systime := 1000, devtime := 100\<rparr>
        = (smart_device \<lparr>write_results = [9, 9],
            read_results = [(4, [8, 0, 0, 0]), (4, [11, 0, 0, 0]), (8, [1, 2, 3, 4, 5, 6, 7, 8])],
            available_results = [], sent = [[0x10], [0x14], [0x1A]]\<rparr>)
          \<lparr>systime := dc_datetime_now scripted,
           devtime := array_uint32_le (ptr_add
             (mem_store_at (mem_store_at (mem_store_at (\<lambda>i. 0) 0 [0x10]) 1 [1, 0, 0, 0]) 5
                [100, 0, 0, 0]) 5)\<rparr>"
    by (simp add: dump_steps)
  show "uwatec_smart_transfer scripted
          ((smart_device \<lparr>write_results = [9, 9],
            read_results = [(4, [8, 0, 0, 0]), (4, [11, 0, 0, 0]), (8, [1, 2, 3, 4, 5, 6, 7, 8])],
            available_results = [], sent = [[0x10], [0x14], [0x1A]]\<rparr>)
            \<lparr>systime := 1000, devtime := 100\<rparr>)
          (dump_command 0xC6 (timestamp ((smart_device \<lparr>write_results = [9, 9],
            read_results = [(4, [8, 0, 0, 0]), (4, [11, 0, 0, 0]), (8, [1, 2, 3, 4, 5, 6, 7, 8])],
            available_results = [], sent = [[0x10], [0x14], [0x1A]]\<rparr>)
            \<lparr>systime := 1000, devtime := 100\<rparr>)))
          9 (\<lambda>i. 0) 0 4
        = (DC_STATUS_SUCCESS, mem_store_at (\<lambda>i. 0) 0 [8, 0, 0, 0],
           (smart_device \<lparr>write_results = [9],
            read_results = [(4, [11, 0, 0, 0]), (8, [1, 2, 3, 4, 5, 6, 7, 8])],
            available_results = [],
            sent = [[0x10], [0x14], [0x1A], [0xC6, 0, 0, 0, 0, 0x10, 0x27, 0, 0]]\<rparr>)
            \<lparr>systime := 1000, devtime := 100\<rparr>)"
    by (simp add: dump_steps)
  show "(8 :: uint) = array_uint32_le (mem_store_at (\<lambda>i. 0) 0 [8, 0, 0, 0])"
    by (simp add: dump_steps)
  show "(8 :: uint) \<noteq> 0"
    by simp
  show "dc_buffer_resize scripted (\<lparr>buffer_data = (\<lambda>i. 0), buffer_size = 3\<rparr>\<lparr>buffer_size := 0\<rparr>)
          (unat (8 :: uint))
        = Some \<lparr>buffer_data = (\<lambda>i. 0), buffer_size = 8\<rparr>"
    by (simp add: dc_buffer_resize_def scripted_def)
  show "uwatec_smart_transfer scripted
          ((smart_device \<lparr>write_results = [9],
            read_results = [(4, [11, 0, 0, 0]), (8, [1, 2, 3, 4, 5, 6, 7, 8])],
            available_results = [],
            sent = [[0x10], [0x14], [0x1A], [0xC6, 0, 0, 0, 0, 0x10, 0x27, 0, 0]]\<rparr>)
            \<lparr>systime := 1000, devtime := 100\<rparr>)
          (dump_command 0xC4 (timestamp ((smart_device \<lparr>write_results = [9, 9],
            read_results = [(4, [8, 0, 0, 0]), (4, [11, 0, 0, 0]), (8, [1, 2, 3, 4, 5, 6, 7, 8])],
            available_results = [], sent = [[0x10], [0x14], [0x1A]]\<rparr>)
            \<lparr>systime := 1000, devtime := 100\<rparr>)))
          9 (mem_store_at (\<lambda>i. 0) 0 [8, 0, 0, 0]) 0 4
        = (DC_STATUS_SUCCESS,
           mem_store_at (mem_store_at (\<lambda>i. 0) 0 [8, 0, 0, 0]) 0 [11, 0, 0, 0],
           (smart_device
                \<lparr>write_results = [], read_results = [(8, [1, 2, 3, 4, 5, 6, 7, 8])],
                 available_results = [],
                 sent = [[0x10], [0x14], [0x1A], [0xC6, 0, 0, 0, 0, 0x10, 0x27, 0, 0],
                         [0xC4, 0, 0, 0, 0, 0x10, 0x27, 0, 0]]\<rparr>)
                \<lparr>systime := 1000, devtime := 100\<rparr>)"
    by (simp add: dump_steps)
  show "(11 :: uint)
        = array_uint32_le (mem_store_at (mem_store_at (\<lambda>i. 0) 0 [8, 0, 0, 0]) 0 [11, 0, 0, 0])"
    by (simp add: dump_steps)
  show "(11 :: uint) \<noteq> 8 + 4"
    by simp
qed


text \<open>
  Claim C9 says that a total other than \<open>L + 4\<close> is a protocol error, with no payload
  chunk read. The code compares the total with \<^verbatim>\<open>length + 4\<close> in \<^verbatim>\<open>unsigned int\<close>, and for
  the four lengths from \<open>2^32 - 4\<close> on that sum wraps around. On the script
  \<open>wrapped_total_script\<close> the length is \<open>2^32 - 4\<close> and the total is 0, which is not
  \<open>2^32\<close>; the wrapped sum is 0 as well, the comparison passes, the chunk loop runs and the
  first chunk of 32 bytes is stored in the buffer of \<open>2^32 - 4\<close> bytes. The dump ends
  with \<^verbatim>\<open>DC_STATUS_IO\<close>, from the read of the second chunk, where the script
  has run out, and not with \<^verbatim>\<open>DC_STATUS_PROTOCOL\<close>. The maximum of the progress events
  has wrapped around too: it is 13, below the current value 17.
\<close>

theorem dump_accepts_wrapped_total:
  "uwatec_smart_device_dump scripted (Some (smart_device wrapped_total_script))
     (Some \<lparr>buffer_data = (\<lambda>i. 0), buffer_size = 0\<rparr>) []
   = Some (DC_STATUS_IO,
           Some ((smart_device
              \<lparr>write_results = [], read_results = [], available_results = [],
               sent = [[0x10], [0x14], [0x1A], [0xC6, 0, 0, 0, 0, 0x10, 0x27, 0, 0],
                       [0xC4, 0, 0, 0, 0, 0x10, 0x27, 0, 0]]\<rparr>)
              \<lparr>systime := 1000, devtime := 100\<rparr>),
           Some \<lparr>buffer_data =
                   mem_store_at
                     (mem_store_at (\<lambda>i. 0) 0
                        [1, 2, 3, 4, 5, 6, 7, 8, 9, 10, 11, 12, 13, 14, 15, 16,
                         17, 18, 19, 20, 21, 22, 23, 24, 25, 26, 27, 28, 29, 30, 31, 32])
                     32 [],
                 buffer_size = 4294967292\<rparr>,
           [DC_EVENT_PROGRESS \<lparr>progress_current = 0, progress_maximum = - 1\<rparr>,
            DC_EVENT_PROGRESS \<lparr>progress_current = 9, progress_maximum = - 1\<rparr>,
            DC_EVENT_CLOCK 1000 100,
            DC_EVENT_DEVINFO 0x10 0 1,
            DC_EVENT_PROGRESS \<lparr>progress_current = 13, progress_maximum = 13\<rparr>,
            DC_EVENT_PROGRESS \<lparr>progress_current = 17, progress_maximum = 13\<rparr>,
            DC_EVENT_PROGRESS \<lparr>progress_current = 49, progress_maximum = 13\<rparr>])
   \<and> unat (array_uint32_le (mem_of [0, 0, 0, 0] 0))
       \<noteq> unat (array_uint32_le (mem_of [0xFC, 0xFF, 0xFF, 0xFF] 0)) + 4"
  by (simp add: uwatec_smart_device_dump_def dump_steps wrapped_total_script_def
      dc_buffer_clear_def EVENT_PROGRESS_INITIALIZER_def dump_loop.simps Let_def mem_of_apply)

end
